theory Spec2Isabelle
  imports Main
begin

section \<open>The document IR\<close>

text \<open>
  The printer builds values of prettier's document algebra with the builders
  \<^verbatim>\<open>concat, join, line, group, indent, dedent, softline, hardline, fill,
  breakParent, literalline\<close>. A document is a string or one of these commands.
\<close>

datatype doc =
    DText string
  | DConcat "doc list"
  | DGroup doc
  | DIndent doc
  | DDedent doc
  | DFill "doc list"
  | DLine
  | DSoftline
  | DHardline
  | DLiteralline
  | DBreakParent

text \<open>\<^verbatim>\<open>groupConcat(docs)\<close> of \<^verbatim>\<open>./helpers\<close>: a group around a concatenation.\<close>

definition groupConcat :: "doc list \<Rightarrow> doc" where
  "groupConcat ds = DGroup (DConcat ds)"

text \<open>\<^verbatim>\<open>join(sep, docs)\<close>: the parts are the documents with the separator between
  each two neighbours; \<^verbatim>\<open>join(sep, docs).parts\<close> is \<open>join_parts\<close>.\<close>

fun join_parts :: "doc \<Rightarrow> doc list \<Rightarrow> doc list" where
  "join_parts sep [] = []"
| "join_parts sep [d] = [d]"
| "join_parts sep (d # e # ds) = d # sep # join_parts sep (e # ds)"

definition join :: "doc \<Rightarrow> doc list \<Rightarrow> doc" where
  "join sep ds = DConcat (join_parts sep ds)"

text \<open>\<^verbatim>\<open>flatten\<close> of \<^verbatim>\<open>./helpers\<close> flattens an array of arrays by one level.\<close>

definition flatten :: "'a list list \<Rightarrow> 'a list" where
  "flatten xss = concat xss"

section \<open>JavaScript strings\<close>

text \<open>
  A string is a list of characters. The character classes are those of the regular
  expressions of the source: \<^verbatim>\<open>\s\<close> (which is also what \<^verbatim>\<open>trim()\<close> strips),
  \<^verbatim>\<open>[\t\n\f\r ]\<close>, \<^verbatim>\<open>[\t\f\r ]\<close> and \<^verbatim>\<open>\W\<close>. Characters are code units below 256,
  so the white space of \<^verbatim>\<open>\s\<close> is tab, line feed, vertical tab, form feed, carriage
  return, space and the no-break space.
\<close>

abbreviation nl :: char where "nl \<equiv> CHR 0x0A"

definition is_js_space :: "char \<Rightarrow> bool" where
  "is_js_space c = (c \<in> {CHR 0x09, nl, CHR 0x0B, CHR 0x0C, CHR 0x0D, CHR '' '', CHR 0xA0})"

definition is_sep :: "char \<Rightarrow> bool" where
  "is_sep c = (c \<in> {CHR 0x09, nl, CHR 0x0C, CHR 0x0D, CHR '' ''})"

definition is_blank :: "char \<Rightarrow> bool" where
  "is_blank c = (c \<in> {CHR 0x09, CHR 0x0C, CHR 0x0D, CHR '' ''})"

definition is_word_char :: "char \<Rightarrow> bool" where
  "is_word_char c =
     (let n = (of_char c :: nat) in
      (97 \<le> n \<and> n \<le> 122) \<or> (65 \<le> n \<and> n \<le> 90) \<or> (48 \<le> n \<and> n \<le> 57) \<or> n = 95)"

text \<open>\<^verbatim>\<open>s.trim()\<close>.\<close>

definition js_trim :: "string \<Rightarrow> string" where
  "js_trim s = rev (dropWhile is_js_space (rev (dropWhile is_js_space s)))"

text \<open>\<^verbatim>\<open>s.slice(from, to)\<close> with both arguments given: a negative index counts from the
  end, both are clamped to the string, and the result is empty when they cross.\<close>

definition js_slice :: "string \<Rightarrow> int \<Rightarrow> int \<Rightarrow> string" where
  "js_slice s from to =
     (let len = int (length s);
          f = (if from < 0 then max (len + from) 0 else min from len);
          t = (if to < 0 then max (len + to) 0 else min to len)
      in take (nat (t - f)) (drop (nat f) s))"

text \<open>\<^verbatim>\<open>s.split('\n')\<close>: the pieces between line feeds; one piece more than there are
  line feeds, so the empty string gives one empty piece.\<close>

fun split_nl :: "string \<Rightarrow> string list" where
  "split_nl [] = [[]]"
| "split_nl (c # cs) =
     (if c = nl then [] # split_nl cs
      else (case split_nl cs of [] \<Rightarrow> [[c]] | w # ws \<Rightarrow> (c # w) # ws))"

text \<open>\<^verbatim>\<open>s.split(/[\t\n\f\r ]+/)\<close>: the pieces between maximal runs of separator
  characters. A run at the start leaves an empty first piece, a run at the end an empty
  last piece.\<close>

fun split_ws :: "string \<Rightarrow> string list" where
  "split_ws [] = [[]]"
| "split_ws [c] = (if is_sep c then [[], []] else [[c]])"
| "split_ws (c # d # ds) =
     (if is_sep c then (if is_sep d then split_ws (d # ds) else [] # split_ws (d # ds))
      else (case split_ws (d # ds) of [] \<Rightarrow> [[c]] | w # ws \<Rightarrow> (c # w) # ws))"

text \<open>\<^verbatim>\<open>/\n/.test(s)\<close>.\<close>

definition test_nl :: "string \<Rightarrow> bool" where
  "test_nl s = (nl \<in> set s)"

text \<open>
  \<^verbatim>\<open>/\n\r?\s*\n\r?/.test(s)\<close>. The carriage return is one of the characters of
  \<^verbatim>\<open>\s\<close>, so \<^verbatim>\<open>\r?\s*\<close> matches what \<^verbatim>\<open>\s*\<close> matches, and the optional
  last \<^verbatim>\<open>\r\<close> never decides a test: the expression matches where a line feed is
  followed by a run of white space that holds a line feed. \<open>ws_then_nl\<close> is
  \<^verbatim>\<open>\s*\n\<close> at the start of the string.
\<close>

fun ws_then_nl :: "string \<Rightarrow> bool" where
  "ws_then_nl [] = False"
| "ws_then_nl (c # cs) = (c = nl \<or> (is_js_space c \<and> ws_then_nl cs))"

fun test_two_nl :: "string \<Rightarrow> bool" where
  "test_two_nl [] = False"
| "test_two_nl (c # cs) = ((c = nl \<and> ws_then_nl cs) \<or> test_two_nl cs)"

text \<open>
  \<^verbatim>\<open>hasPragma(text)\<close>: \<^verbatim>\<open>/^\s*<!--\s*@(format|prettier)\W/.test(text)\<close>. What follows
  each \<^verbatim>\<open>\s*\<close> is not white space, so the run of white space is skipped whole.
\<close>

definition starts_with :: "string \<Rightarrow> string \<Rightarrow> bool" where
  "starts_with p s = (take (length p) s = p)"

definition nonword_next :: "string \<Rightarrow> bool" where
  "nonword_next s = (case s of [] \<Rightarrow> False | c # _ \<Rightarrow> \<not> is_word_char c)"

definition hasPragma :: "string \<Rightarrow> bool" where
  "hasPragma text =
     (let t1 = dropWhile is_js_space text in
      starts_with ''<!--'' t1 \<and>
      (let t2 = dropWhile is_js_space (drop 4 t1) in
       starts_with ''@'' t2 \<and>
       ((starts_with ''format'' (drop 1 t2) \<and> nonword_next (drop 7 t2)) \<or>
        (starts_with ''prettier'' (drop 1 t2) \<and> nonword_next (drop 9 t2)))))"

section \<open>Syntax trees\<close>

text \<open>
  A node of the tree carries its kind and its source offsets \<^verbatim>\<open>start\<close> and
  \<^verbatim>\<open>end\<close>. The kinds are the values of \<^verbatim>\<open>node.type\<close> on which \<^verbatim>\<open>print\<close>
  dispatches, each with the fields \<^verbatim>\<open>print\<close> reads. An attribute's \<^verbatim>\<open>value\<close> is
  \<^verbatim>\<open>true\<close> or a list of nodes. An embedded expression is a node of the expression
  language: the printer tells an \<^verbatim>\<open>Identifier\<close> from every other expression, and
  \<^verbatim>\<open>printJS\<close> marks the expression with flags before it hands it to the callback.
\<close>

datatype estree = Identifier string | OtherExpression string

record jsflags =
  forceSingleQuote :: bool
  forceSingleLine :: bool
  removeParentheses :: bool

datatype etype = TElement | TInlineComponent | TSlot | TSlotTemplate | TWindow | THead | TTitle

datatype node = Node nkind int int
and attrvalue = VTrue | VNodes "node list"
and nkind =
    Fragment "node list"
  | Text string string
  | Element etype string "node list" "node list"
  | Options string "node list"
  | Body string "node list"
  | Document string "node list"
  | Attribute string attrvalue
  | AttributeShorthand node
  | MustacheTag node
  | IfBlock node "node list" "node option"
  | ElseBlock "node list"
  | EachBlock node "node option" "string option" "node option" "node list" "node option"
  | AwaitBlock node "node option" "node option" node node node
  | KeyBlock node "node list"
  | ThenBlock "node list"
  | PendingBlock "node list"
  | CatchBlock "node list"
  | EventHandler string "string list" "node option"
  | Binding string "string list" node
  | Class string "string list" node
  | StyleDirective string "string list" attrvalue
  | Let string "string list" "node option"
  | DebugTag "node list"
  | Ref string
  | Comment string
  | Transition string "string list" bool bool "node option"
  | Action string "string list" "node option"
  | Animation string "string list" "node option"
  | RawMustacheTag node
  | Spread node
  | ConstTag node
  | Script "node list"
  | Style "node list"
  | JS estree "jsflags option"
  | Other string

text \<open>
  The fields, in the order of the constructors' arguments:
  \<^item> \<open>Text raw data\<close>; \<open>Element type name attributes children\<close>;
    \<open>Options name attributes\<close>, \<open>Body\<close> and \<open>Document\<close> alike;
  \<^item> \<open>Attribute name value\<close>; \<open>AttributeShorthand expression\<close>;
    \<open>MustacheTag expression\<close>;
  \<^item> \<open>IfBlock expression children else\<close>;
    \<open>EachBlock expression context index key children else\<close>;
    \<open>AwaitBlock expression value error pending then catch\<close>;
    \<open>KeyBlock expression children\<close>;
  \<^item> \<open>EventHandler name modifiers expression\<close>;
    \<open>Binding name modifiers expression\<close>; \<open>Class name modifiers expression\<close>;
    \<open>StyleDirective name modifiers value\<close>; \<open>Let name modifiers expression\<close>;
    \<open>Transition name modifiers intro outro expression\<close>;
    \<open>Action name modifiers expression\<close>; \<open>Animation name modifiers expression\<close>:
    the parser splits the name of every directive at \<^verbatim>\<open>|\<close> and gives each of these
    nodes its list of modifiers, whether \<^verbatim>\<open>print\<close> reads it or not;
  \<^item> \<open>DebugTag identifiers\<close>; \<open>Comment data\<close>;
  \<^item> \<open>Script attributes\<close> and \<open>Style attributes\<close>: a top-level section, whose
    \<^verbatim>\<open>attributes\<close> are set by \<^verbatim>\<open>printTopLevelParts\<close>;
  \<^item> \<open>Other type\<close>: a node of any other type.
  A list of modifiers that is missing is the empty list: where the printer reads the
  list it asks \<^verbatim>\<open>node.modifiers && node.modifiers.length\<close>.
\<close>

fun kind :: "node \<Rightarrow> nkind" where
  "kind (Node k s e) = k"

fun nstart :: "node \<Rightarrow> int" where
  "nstart (Node k s e) = s"

fun nend :: "node \<Rightarrow> int" where
  "nend (Node k s e) = e"

fun with_kind :: "node \<Rightarrow> nkind \<Rightarrow> node" where
  "with_kind (Node k s e) k' = Node k' s e"

definition is_Text :: "node \<Rightarrow> bool" where
  "is_Text n = (case kind n of Text raw data \<Rightarrow> True | _ \<Rightarrow> False)"

text \<open>\<^verbatim>\<open>node.children\<close>, for the kinds that have one; \<open>set_children\<close> is the
  assignment \<^verbatim>\<open>node.children = cs\<close>.\<close>

fun kind_children :: "nkind \<Rightarrow> node list" where
  "kind_children (Fragment cs) = cs"
| "kind_children (Element t name as cs) = cs"
| "kind_children (IfBlock e cs el) = cs"
| "kind_children (ElseBlock cs) = cs"
| "kind_children (EachBlock e c i k cs el) = cs"
| "kind_children (KeyBlock e cs) = cs"
| "kind_children (ThenBlock cs) = cs"
| "kind_children (PendingBlock cs) = cs"
| "kind_children (CatchBlock cs) = cs"
| "kind_children _ = []"

definition children :: "node \<Rightarrow> node list" where
  "children n = kind_children (kind n)"

fun kind_set_children :: "nkind \<Rightarrow> node list \<Rightarrow> nkind" where
  "kind_set_children (Fragment _) cs = Fragment cs"
| "kind_set_children (Element t name as _) cs = Element t name as cs"
| "kind_set_children (IfBlock e _ el) cs = IfBlock e cs el"
| "kind_set_children (ElseBlock _) cs = ElseBlock cs"
| "kind_set_children (EachBlock e c i k _ el) cs = EachBlock e c i k cs el"
| "kind_set_children (KeyBlock e _) cs = KeyBlock e cs"
| "kind_set_children (ThenBlock _) cs = ThenBlock cs"
| "kind_set_children (PendingBlock _) cs = PendingBlock cs"
| "kind_set_children (CatchBlock _) cs = CatchBlock cs"
| "kind_set_children k cs = k"

definition set_children :: "node \<Rightarrow> node list \<Rightarrow> node" where
  "set_children n cs = with_kind n (kind_set_children (kind n) cs)"

text \<open>The root of the tree (\<^verbatim>\<open>ASTNode\<close>): the markup and the optional sections.\<close>

record ast =
  html :: node
  css :: "node option"
  instance_script :: "node option"
  module_script :: "node option"

text \<open>
  A path is the stack of values from the one being printed (first) up to the root.
  \<^verbatim>\<open>path.getValue()\<close> is its head, which may be no value at all;
  \<^verbatim>\<open>path.getParentNode()\<close> is the next value above it that is a value at all, be it
  a node or the root, which is an object with no \<^verbatim>\<open>type\<close>; \<^verbatim>\<open>path.call(print, field)\<close>
  and \<^verbatim>\<open>path.map(print, field)\<close> apply the callback to the path with a child pushed.
\<close>

datatype pval = PNull | PRoot ast | PNode node

type_synonym path = "pval list"

fun getParentNode :: "path \<Rightarrow> pval option" where
  "getParentNode (v # PNull # rest) = getParentNode (v # rest)"
| "getParentNode (v # p # rest) = Some p"
| "getParentNode _ = None"

section \<open>Options, the three globals, errors\<close>

datatype SortOrderPart = PScripts | PMarkup | PStyles | POptions

record options =
  svelteStrictMode :: bool
  svelteAllowShorthand :: bool
  svelteSortOrder :: string
  insertPragma :: bool
  parentParser :: string
  originalText :: string
  locStart :: "node \<Rightarrow> int"
  locEnd :: "node \<Rightarrow> int"

text \<open>The module-level variables \<^verbatim>\<open>ignoreNext\<close>, \<^verbatim>\<open>ignoreRange\<close> and
  \<^verbatim>\<open>svelteOptionsDoc\<close>, and their values when the module is loaded.\<close>

record gstate =
  ignoreNext :: bool
  ignoreRange :: bool
  svelteOptionsDoc :: "doc option"

definition initial_state :: gstate where
  "initial_state = \<lparr>ignoreNext = False, ignoreRange = False, svelteOptionsDoc = None\<rparr>"

datatype err = Error string

text \<open>
  A computation reads and writes the globals and returns a value or throws. The callback
  \<^verbatim>\<open>print: PrintFn\<close> that the host passes to the printer is such a computation on a
  path: it calls back into the printer, so it can change the globals, and what it throws
  passes through the printer.
\<close>

type_synonym 'a M = "gstate \<Rightarrow> (err + 'a) \<times> gstate"

definition ret :: "'a \<Rightarrow> 'a M" where
  "ret x = (\<lambda>s. (Inr x, s))"

definition throw :: "err \<Rightarrow> 'a M" where
  "throw e = (\<lambda>s. (Inl e, s))"

definition bnd :: "'a M \<Rightarrow> ('a \<Rightarrow> 'b M) \<Rightarrow> 'b M" where
  "bnd m f = (\<lambda>s. case m s of (Inl e, s') \<Rightarrow> (Inl e, s') | (Inr x, s') \<Rightarrow> f x s')"

definition get_state :: "gstate M" where
  "get_state = (\<lambda>s. (Inr s, s))"

definition modify :: "(gstate \<Rightarrow> gstate) \<Rightarrow> unit M" where
  "modify f = (\<lambda>s. (Inr (), f s))"

fun mapM :: "('a \<Rightarrow> 'b M) \<Rightarrow> 'a list \<Rightarrow> 'b list M" where
  "mapM f [] = ret []"
| "mapM f (x # xs) = bnd (f x) (\<lambda>y. bnd (mapM f xs) (\<lambda>ys. ret (y # ys)))"

type_synonym PrintFn = "path \<Rightarrow> doc M"

text \<open>\<^verbatim>\<open>path.call(print, field)\<close> for the child \<open>c\<close> in that field, and
  \<^verbatim>\<open>path.map(f, field)\<close> for the children \<open>cs\<close> in it.\<close>

definition path_call :: "(path \<Rightarrow> 'a M) \<Rightarrow> path \<Rightarrow> node \<Rightarrow> 'a M" where
  "path_call f p c = f (PNode c # p)"

definition path_map :: "(path \<Rightarrow> 'a M) \<Rightarrow> path \<Rightarrow> node list \<Rightarrow> 'a list M" where
  "path_map f p cs = mapM (\<lambda>c. f (PNode c # p)) cs"

section \<open>What the printer imports\<close>

text \<open>
  The printer module imports its helpers from \<^verbatim>\<open>./node-helpers\<close>, \<^verbatim>\<open>./helpers\<close>,
  \<^verbatim>\<open>./doc-helpers\<close>, \<^verbatim>\<open>../lib\<close> and \<^verbatim>\<open>../options\<close>, and the expression
  serialiser \<^verbatim>\<open>generate\<close> from \<^verbatim>\<open>astring\<close>. They are parameters here, under their
  own names, so that what is proved of the printer holds for every implementation of
  them. \<^verbatim>\<open>trimChildren\<close>, \<^verbatim>\<open>trimTextNodeLeft\<close> and \<^verbatim>\<open>trimTextNodeRight\<close> change
  their argument in place: the parameter returns the changed value. \<open>trimRight d p\<close>
  is the document \<open>d\<close> after \<^verbatim>\<open>trimRight([d], p)\<close>, which trims the parts of \<open>d\<close> in
  place, or what the call throws; \<open>d\<close> is nothing when the one component of the list is
  \<^verbatim>\<open>undefined\<close>. \<^verbatim>\<open>generate\<close> returns nothing where the serialiser throws.

  Four parts of the printer module itself are parameters too, since nothing below
  depends on what they compute: \<^verbatim>\<open>assignCommentsToNodes\<close> (it moves comments of the
  markup to the sections and touches none of the globals), \<^verbatim>\<open>expandNode\<close> (the text
  of a binding pattern), the case of \<^verbatim>\<open>print\<close> for the element-like nodes and its
  case for a \<^verbatim>\<open>Text\<close> inside a \<^verbatim>\<open>pre\<close> tag.
\<close>

datatype whitespace = WNone | WSpace | WLine

record helpers =
  isBracketSameLine :: "options \<Rightarrow> bool"
  isPreTagContent :: "path \<Rightarrow> bool"
  getUnencodedText :: "node \<Rightarrow> string"
  isIgnoreDirective :: "node \<Rightarrow> bool"
  isIgnoreStartDirective :: "node \<Rightarrow> bool"
  isIgnoreEndDirective :: "node \<Rightarrow> bool"
  isNodeTopLevelHTML :: "node \<Rightarrow> path \<Rightarrow> bool"
  getNextNode :: "path \<Rightarrow> node option"
  doesEmbedStartAfterNode :: "node \<Rightarrow> path \<Rightarrow> bool"
  isBlockElement :: "node \<Rightarrow> options \<Rightarrow> bool"
  isInlineElement :: "path \<Rightarrow> options \<Rightarrow> node \<Rightarrow> bool"
  isInsideQuotedAttribute :: "path \<Rightarrow> options \<Rightarrow> bool"
  isLoneMustacheTag :: "attrvalue \<Rightarrow> bool"
  trimChildren :: "node list \<Rightarrow> path \<Rightarrow> node list"
  checkWhitespaceAtStartOfSvelteBlock :: "node \<Rightarrow> options \<Rightarrow> whitespace"
  checkWhitespaceAtEndOfSvelteBlock :: "node \<Rightarrow> options \<Rightarrow> whitespace"
  isTextNodeStartingWithWhitespace :: "node \<Rightarrow> bool"
  isTextNodeEndingWithWhitespace :: "node \<Rightarrow> bool"
  isTextNodeStartingWithLinebreak :: "node \<Rightarrow> nat \<Rightarrow> bool"
  isTextNodeEndingWithLinebreak :: "node \<Rightarrow> nat \<Rightarrow> bool"
  trimTextNodeLeft :: "node \<Rightarrow> node"
  trimTextNodeRight :: "node \<Rightarrow> node"
  formattableAttributes :: "string list"
  printWithPrependedAttributeLine :: "node \<Rightarrow> options \<Rightarrow> PrintFn \<Rightarrow> path \<Rightarrow> doc M"
  hasSnippedContent :: "string \<Rightarrow> bool"
  unsnipContent :: "string \<Rightarrow> string"
  trim :: "doc list \<Rightarrow> (doc \<Rightarrow> bool) \<Rightarrow> doc list"
  trimRight :: "doc option \<Rightarrow> (doc \<Rightarrow> bool) \<Rightarrow> err + doc"
  isLine :: "doc \<Rightarrow> bool"
  isEmptyDoc :: "doc \<Rightarrow> bool"
  parseSortOrder :: "string \<Rightarrow> SortOrderPart list"
  extractAttributes :: "string \<Rightarrow> node list"
  getText :: "node \<Rightarrow> options \<Rightarrow> string"
  generate :: "node \<Rightarrow> string option"
  assignCommentsToNodes :: "ast \<Rightarrow> ast"
  expandNode :: "node option \<Rightarrow> err + string"
  printElement :: "options \<Rightarrow> PrintFn \<Rightarrow> path \<Rightarrow> node \<Rightarrow> doc M"
  printPreText :: "options \<Rightarrow> path \<Rightarrow> node \<Rightarrow> doc"

text \<open>
  Modelled from the spec: \<^verbatim>\<open>isEmptyTextNode\<close> of \<^verbatim>\<open>./node-helpers\<close>, which is not
  among the files. The spec calls a \<^verbatim>\<open>Text\<close> node empty when it is whitespace-only:
  its text, trimmed, is the empty string.
\<close>

definition isEmptyTextNode :: "helpers \<Rightarrow> node \<Rightarrow> bool" where
  "isEmptyTextNode X n = (is_Text n \<and> js_trim (getUnencodedText X n) = [])"

text \<open>
  Modelled from the spec: \<^verbatim>\<open>startsWithLinebreak(text, nrLines = 1)\<close> and
  \<^verbatim>\<open>endsWithLinebreak(text, nrLines = 1)\<close> of \<^verbatim>\<open>./node-helpers\<close>, which are not
  among the files. The spec speaks of the consecutive newline sequences at an edge of
  the text: the text starts with \<open>n\<close> of them when \<open>n\<close> times a line feed follows
  a run of tabs, form feeds, carriage returns and spaces; it ends with \<open>n\<close> of them
  when the same holds read from its end.
\<close>

fun startsWithLinebreak :: "string \<Rightarrow> nat \<Rightarrow> bool" where
  "startsWithLinebreak t 0 = True"
| "startsWithLinebreak t (Suc n) =
     (case dropWhile is_blank t of
        [] \<Rightarrow> False
      | c # rest \<Rightarrow> c = nl \<and> startsWithLinebreak rest n)"

definition endsWithLinebreak :: "string \<Rightarrow> nat \<Rightarrow> bool" where
  "endsWithLinebreak t n = startsWithLinebreak (rev t) n"

text \<open>
  Modelled from the spec: \<^verbatim>\<open>isOrCanBeConvertedToShorthand(node)\<close> of
  \<^verbatim>\<open>./node-helpers\<close>, which is not among the files. By the spec a node qualifies for
  the shorthand when its expression is a bare identifier equal to the attribute name:
  the value is a shorthand already, or it is a single mustache tag over that identifier.
\<close>

definition is_identifier_named :: "node \<Rightarrow> string \<Rightarrow> bool" where
  "is_identifier_named e name =
     (case kind e of JS (Identifier x) f \<Rightarrow> x = name | _ \<Rightarrow> False)"

definition isOrCanBeConvertedToShorthand :: "string \<Rightarrow> attrvalue \<Rightarrow> bool" where
  "isOrCanBeConvertedToShorthand name v =
     (case v of
        VNodes [n] \<Rightarrow>
          (case kind n of
             AttributeShorthand e \<Rightarrow> True
           | MustacheTag e \<Rightarrow> is_identifier_named e name
           | _ \<Rightarrow> False)
      | _ \<Rightarrow> False)"

text \<open>\<^verbatim>\<open>getChildren(node)\<close> of \<^verbatim>\<open>./node-helpers\<close> gives the child list of the node,
  which \<^verbatim>\<open>printTopLevelParts\<close> then changes in place.\<close>

definition getChildren :: "node \<Rightarrow> node list" where
  "getChildren n = children n"

text \<open>\<^verbatim>\<open>node.type\<close>.\<close>

fun etype_name :: "etype \<Rightarrow> string" where
  "etype_name TElement = ''Element''"
| "etype_name TInlineComponent = ''InlineComponent''"
| "etype_name TSlot = ''Slot''"
| "etype_name TSlotTemplate = ''SlotTemplate''"
| "etype_name TWindow = ''Window''"
| "etype_name THead = ''Head''"
| "etype_name TTitle = ''Title''"

fun kind_type :: "nkind \<Rightarrow> string" where
  "kind_type (Fragment cs) = ''Fragment''"
| "kind_type (Text raw data) = ''Text''"
| "kind_type (Element t name as cs) = etype_name t"
| "kind_type (Options name as) = ''Options''"
| "kind_type (Body name as) = ''Body''"
| "kind_type (Document name as) = ''Document''"
| "kind_type (Attribute name v) = ''Attribute''"
| "kind_type (AttributeShorthand e) = ''AttributeShorthand''"
| "kind_type (MustacheTag e) = ''MustacheTag''"
| "kind_type (IfBlock e cs el) = ''IfBlock''"
| "kind_type (ElseBlock cs) = ''ElseBlock''"
| "kind_type (EachBlock e c i k cs el) = ''EachBlock''"
| "kind_type (AwaitBlock e v er p t c) = ''AwaitBlock''"
| "kind_type (KeyBlock e cs) = ''KeyBlock''"
| "kind_type (ThenBlock cs) = ''ThenBlock''"
| "kind_type (PendingBlock cs) = ''PendingBlock''"
| "kind_type (CatchBlock cs) = ''CatchBlock''"
| "kind_type (EventHandler name ms e) = ''EventHandler''"
| "kind_type (Binding name ms e) = ''Binding''"
| "kind_type (Class name ms e) = ''Class''"
| "kind_type (StyleDirective name ms v) = ''StyleDirective''"
| "kind_type (Let name ms e) = ''Let''"
| "kind_type (DebugTag ids) = ''DebugTag''"
| "kind_type (Ref name) = ''Ref''"
| "kind_type (Comment d) = ''Comment''"
| "kind_type (Transition name ms i o' e) = ''Transition''"
| "kind_type (Action name ms e) = ''Action''"
| "kind_type (Animation name ms e) = ''Animation''"
| "kind_type (RawMustacheTag e) = ''RawMustacheTag''"
| "kind_type (Spread e) = ''Spread''"
| "kind_type (ConstTag e) = ''ConstTag''"
| "kind_type (Script as) = ''Script''"
| "kind_type (Style as) = ''Style''"
| "kind_type (JS (Identifier x) f) = ''Identifier''"
| "kind_type (JS (OtherExpression t) f) = t"
| "kind_type (Other t) = t"

definition node_type :: "node \<Rightarrow> string" where
  "node_type n = kind_type (kind n)"

section \<open>The printer\<close>

text \<open>
  The functions of the printer module. A function that the source gives a \<^verbatim>\<open>path\<close>
  whose value is a node takes here the node \<open>node\<close> and the values \<open>up\<close> above it:
  the path is \<open>PNode node # up\<close>. The source changes nodes in place; here a function
  that changes the node it prints returns the changed node with its document, and the
  callback is given the path with the changes made so far. What the callback itself
  changes below the node it prints is not seen here: the printer reads nothing of a
  child after it has printed it but the child's kind, name and own text.
\<close>

definition is_Options :: "node \<Rightarrow> bool" where
  "is_Options n = (case kind n of Options name as \<Rightarrow> True | _ \<Rightarrow> False)"

definition is_IfBlock :: "node \<Rightarrow> bool" where
  "is_IfBlock n = (case kind n of IfBlock e cs el \<Rightarrow> True | _ \<Rightarrow> False)"

text \<open>\<^verbatim>\<open>parent.type === 'EachBlock'\<close>, of a parent that is a node or the root.\<close>

definition is_EachBlock :: "pval \<Rightarrow> bool" where
  "is_EachBlock v =
     (case v of
        PNode n \<Rightarrow> (case kind n of EachBlock e c i k cs el \<Rightarrow> True | _ \<Rightarrow> False)
      | _ \<Rightarrow> False)"

definition printComment :: "helpers \<Rightarrow> string \<Rightarrow> doc" where
  "printComment X data =
     (let text = (if hasSnippedContent X data then unsnipContent X data else data)
      in groupConcat [DText ''<!--'', DText text, DText ''-->''])"

text \<open>\<^verbatim>\<open>printJS\<close> sets the flags on the expression \<open>e\<close> (the field \<^verbatim>\<open>name\<close> of the
  node) and calls the callback on it.\<close>

definition set_jsflags :: "node \<Rightarrow> jsflags \<Rightarrow> node" where
  "set_jsflags n f = (case kind n of JS e old \<Rightarrow> with_kind n (JS e (Some f)) | _ \<Rightarrow> n)"

definition printJS :: "PrintFn \<Rightarrow> path \<Rightarrow> bool \<Rightarrow> bool \<Rightarrow> bool \<Rightarrow> node \<Rightarrow> doc M" where
  "printJS pr path fsq fsl rp e =
     path_call pr path
       (set_jsflags e \<lparr>forceSingleQuote = fsq, forceSingleLine = fsl, removeParentheses = rp\<rparr>)"

definition printSvelteBlockJS :: "PrintFn \<Rightarrow> path \<Rightarrow> node \<Rightarrow> doc M" where
  "printSvelteBlockJS pr path e = printJS pr path False True False e"

text \<open>
  The document of a tag that closes itself, which the source writes out four times (for
  \<^verbatim>\<open>Options\<close> and \<^verbatim>\<open>Body\<close>, for \<^verbatim>\<open>Document\<close> and in \<^verbatim>\<open>printSvelteOptions\<close>):
  \<^verbatim>\<open>groupConcat(['<', node.name, indent(groupConcat([...attributes,
  bracketSameLine ? '' : dedent(line)])), ...[bracketSameLine ? ' ' : '', '/>']])\<close>.
\<close>

definition selfClosingTag :: "helpers \<Rightarrow> options \<Rightarrow> string \<Rightarrow> doc list \<Rightarrow> doc" where
  "selfClosingTag X opts name attrs =
     groupConcat
       [DText ''<'', DText name,
        DIndent (groupConcat
          (attrs @ [if isBracketSameLine X opts then DText [] else DDedent DLine])),
        if isBracketSameLine X opts then DText '' '' else DText [],
        DText ''/>'']"

subsection \<open>\<^verbatim>\<open>prepareChildren\<close>\<close>

definition isCommentFollowedByOptions :: "helpers \<Rightarrow> node \<Rightarrow> node list \<Rightarrow> bool" where
  "isCommentFollowedByOptions X node after =
     (case kind node of
        Comment d \<Rightarrow>
          if isIgnoreEndDirective X node \<or> isIgnoreStartDirective X node then False
          else (case after of
                  [] \<Rightarrow> False
                | nextChild # after' \<Rightarrow>
                    if isEmptyTextNode X nextChild
                    then (case after' of [] \<Rightarrow> False | afterNext # _ \<Rightarrow> is_Options afterNext)
                    else is_Options nextChild)
      | _ \<Rightarrow> False)"

definition comment_data :: "node \<Rightarrow> string" where
  "comment_data n = (case kind n of Comment d \<Rightarrow> d | _ \<Rightarrow> [])"

definition printSvelteOptions ::
  "helpers \<Rightarrow> options \<Rightarrow> PrintFn \<Rightarrow> path \<Rightarrow> doc option \<Rightarrow> node \<Rightarrow> unit M" where
  "printSvelteOptions X opts pr path svelteOptionsComment node =
     (case kind node of
        Options name attrs \<Rightarrow>
          bnd (path_map (printWithPrependedAttributeLine X node opts pr) (PNode node # path) attrs)
            (\<lambda>ds.
               let d = groupConcat [selfClosingTag X opts name ds, DHardline] in
               modify (\<lambda>s. s\<lparr>svelteOptionsDoc :=
                 Some (case svelteOptionsComment of
                         None \<Rightarrow> d
                       | Some c \<Rightarrow> groupConcat [c, DHardline, d])\<rparr>))
      | _ \<Rightarrow> ret ())"

text \<open>The first loop of \<^verbatim>\<open>prepareChildren\<close>, on the children from the index
  \<^verbatim>\<open>idx\<close> on; \<open>cm\<close> is \<^verbatim>\<open>svelteOptionsComment\<close>.\<close>

fun prepare_loop ::
  "helpers \<Rightarrow> options \<Rightarrow> PrintFn \<Rightarrow> path \<Rightarrow> doc option \<Rightarrow> node list \<Rightarrow> node list M" where
  "prepare_loop X opts pr path cm [] = ret []"
| "prepare_loop X opts pr path cm (c # rest) =
     (if is_Text c \<and> getUnencodedText X c = [] then prepare_loop X opts pr path cm rest
      else if isEmptyTextNode X c \<and> doesEmbedStartAfterNode X c path
      then prepare_loop X opts pr path cm rest
      else if svelteSortOrder opts \<noteq> ''none'' \<and> isCommentFollowedByOptions X c rest
      then (case rest of
              [] \<Rightarrow> prepare_loop X opts pr path (Some (printComment X (comment_data c))) rest
            | nextChild # rest' \<Rightarrow>
                if isEmptyTextNode X nextChild
                then prepare_loop X opts pr path (Some (printComment X (comment_data c))) rest'
                else prepare_loop X opts pr path (Some (printComment X (comment_data c))) rest)
      else if svelteSortOrder opts \<noteq> ''none'' \<and> is_Options c
      then bnd (printSvelteOptions X opts pr path cm c)
             (\<lambda>u. prepare_loop X opts pr path cm rest)
      else bnd (prepare_loop X opts pr path cm rest) (\<lambda>r. ret (c # r)))"

text \<open>The second loop: a \<^verbatim>\<open>Text\<close> followed by a \<^verbatim>\<open>Text\<close> takes the other's
  \<^verbatim>\<open>raw\<close> and \<^verbatim>\<open>data\<close>, and the other is skipped.\<close>

fun merge_text_nodes :: "node list \<Rightarrow> node list" where
  "merge_text_nodes [] = []"
| "merge_text_nodes [c] = [c]"
| "merge_text_nodes (c # n # rest) =
     (case kind c of
        Text raw data \<Rightarrow>
          (case kind n of
             Text raw' data' \<Rightarrow> with_kind c (Text (raw @ raw') (data @ data')) # merge_text_nodes rest
           | _ \<Rightarrow> c # merge_text_nodes (n # rest))
      | _ \<Rightarrow> c # merge_text_nodes (n # rest))"

definition prepareChildren ::
  "helpers \<Rightarrow> options \<Rightarrow> PrintFn \<Rightarrow> path \<Rightarrow> node list \<Rightarrow> node list M" where
  "prepareChildren X opts pr path cs =
     bnd (prepare_loop X opts pr path None cs) (\<lambda>r. ret (merge_text_nodes r))"

subsection \<open>\<^verbatim>\<open>printChildren\<close>\<close>

text \<open>The variables of the loop of \<^verbatim>\<open>printChildren\<close>: the child nodes, which the loop
  trims in place, the documents pushed so far, and the flag.\<close>

record loop_state =
  childNodes :: "node list"
  childDocs :: "doc list"
  handleWhitespaceOfPrevTextNode :: bool

definition printChild :: "PrintFn \<Rightarrow> node \<Rightarrow> path \<Rightarrow> node list \<Rightarrow> nat \<Rightarrow> doc M" where
  "printChild pr node up cn idx = pr (PNode (cn ! idx) # PNode (set_children node cn) # up)"

definition handleInlineChild ::
  "PrintFn \<Rightarrow> node \<Rightarrow> path \<Rightarrow> nat \<Rightarrow> loop_state \<Rightarrow> loop_state M" where
  "handleInlineChild pr node up idx st =
     bnd (printChild pr node up (childNodes st) idx)
       (\<lambda>d. ret (st\<lparr>childDocs := childDocs st @
                      [if handleWhitespaceOfPrevTextNode st then groupConcat [DLine, d] else d],
                    handleWhitespaceOfPrevTextNode := False\<rparr>))"

definition handleBlockChild ::
  "helpers \<Rightarrow> options \<Rightarrow> PrintFn \<Rightarrow> node \<Rightarrow> path \<Rightarrow> nat \<Rightarrow> loop_state \<Rightarrow> loop_state M" where
  "handleBlockChild X opts pr node up idx st =
     (let cn = childNodes st;
          path = PNode (set_children node cn) # up;
          before =
            (0 < idx \<and>
             (let prevChild = cn ! (idx - 1) in
              \<not> isBlockElement X prevChild opts \<and>
              (\<not> is_Text prevChild \<or> handleWhitespaceOfPrevTextNode st \<or>
               \<not> isTextNodeEndingWithWhitespace X prevChild)));
          after =
            (idx + 1 < length cn \<and>
             (let nextChild = cn ! (idx + 1) in
              \<not> is_Text nextChild \<or>
              ((\<not> isEmptyTextNode X nextChild \<or>
                (idx + 2 < length cn \<and> isInlineElement X path opts (cn ! (idx + 2)))) \<and>
               \<not> isTextNodeStartingWithLinebreak X nextChild 1)))
      in bnd (printChild pr node up cn idx)
           (\<lambda>d. ret (st\<lparr>childDocs := childDocs st @ (if before then [DSoftline] else []) @ [d] @
                                      (if after then [DSoftline] else []),
                        handleWhitespaceOfPrevTextNode := False\<rparr>)))"

text \<open>
  \<^verbatim>\<open>handleTextChild\<close>. The text node is trimmed in place, so each test reads the node as
  the trims before it left it. \<^verbatim>\<open>childDocs.pop()\<close> finds a document: the index is not
  the first, and every earlier round pushed one.
\<close>

definition handleTextChild ::
  "helpers \<Rightarrow> options \<Rightarrow> PrintFn \<Rightarrow> node \<Rightarrow> path \<Rightarrow> nat \<Rightarrow> loop_state \<Rightarrow> loop_state M" where
  "handleTextChild X opts pr node up idx st =
     (let cn = childNodes st in
      if idx = 0 \<or> idx = length cn - 1 then
        bnd (printChild pr node up cn idx)
          (\<lambda>d. ret (st\<lparr>childDocs := childDocs st @ [d],
                       handleWhitespaceOfPrevTextNode := False\<rparr>))
      else
        (let path = PNode (set_children node cn) # up;
             prevNode = cn ! (idx - 1);
             nextNode = cn ! (idx + 1);
             c0 = cn ! idx;
             start = (isTextNodeStartingWithWhitespace X c0 \<and> \<not> isEmptyTextNode X c0);
             hugPrev = (start \<and> isInlineElement X path opts prevNode \<and>
                        \<not> isTextNodeStartingWithLinebreak X c0 1);
             c1 = (if hugPrev then trimTextNodeLeft X c0 else c0);
             docs1 = (if hugPrev
                      then butlast (childDocs st) @ [groupConcat [last (childDocs st), DLine]]
                      else childDocs st);
             c2 = (if start \<and> isBlockElement X prevNode opts \<and>
                      \<not> isTextNodeStartingWithLinebreak X c1 1
                   then trimTextNodeLeft X c1 else c1);
             ending = isTextNodeEndingWithWhitespace X c2;
             inl = (ending \<and> isInlineElement X path opts nextNode \<and>
                    \<not> isTextNodeEndingWithLinebreak X c2 1);
             c3 = (if inl then trimTextNodeRight X c2 else c2);
             blk = (ending \<and> isBlockElement X nextNode opts \<and>
                    \<not> isTextNodeEndingWithLinebreak X c3 2);
             c4 = (if blk then trimTextNodeRight X c3 else c3);
             flag = ((inl \<or> blk) \<and> \<not> isBlockElement X prevNode opts);
             cn' = cn[idx := c4]
         in bnd (printChild pr node up cn' idx)
              (\<lambda>d. ret (st\<lparr>childNodes := cn', childDocs := docs1 @ [d],
                           handleWhitespaceOfPrevTextNode := flag\<rparr>))))"

definition children_step ::
  "helpers \<Rightarrow> options \<Rightarrow> PrintFn \<Rightarrow> node \<Rightarrow> path \<Rightarrow> nat \<Rightarrow> loop_state \<Rightarrow> loop_state M" where
  "children_step X opts pr node up i st =
     (let cn = childNodes st; childNode = cn ! i in
      if is_Text childNode then handleTextChild X opts pr node up i st
      else if isBlockElement X childNode opts then handleBlockChild X opts pr node up i st
      else if isInlineElement X (PNode (set_children node cn) # up) opts childNode
      then handleInlineChild pr node up i st
      else bnd (printChild pr node up cn i)
             (\<lambda>d. ret (st\<lparr>childDocs := childDocs st @ [d],
                          handleWhitespaceOfPrevTextNode := False\<rparr>)))"

text \<open>The loop \<^verbatim>\<open>for (let i = 0; i < childNodes.length; i++)\<close>: no round changes the
  length of \<^verbatim>\<open>childNodes\<close>, so the rounds are those of the indices of the list.\<close>

fun children_loop ::
  "helpers \<Rightarrow> options \<Rightarrow> PrintFn \<Rightarrow> node \<Rightarrow> path \<Rightarrow> nat list \<Rightarrow> loop_state \<Rightarrow> loop_state M" where
  "children_loop X opts pr node up [] st = ret st"
| "children_loop X opts pr node up (i # is) st =
     bnd (children_step X opts pr node up i st) (children_loop X opts pr node up is)"

definition printChildren ::
  "helpers \<Rightarrow> options \<Rightarrow> PrintFn \<Rightarrow> node \<Rightarrow> path \<Rightarrow> (doc \<times> node) M" where
  "printChildren X opts pr node up =
     (if isPreTagContent X (PNode node # up)
      then bnd (path_map pr (PNode node # up) (children node)) (\<lambda>ds. ret (DConcat ds, node))
      else
        bnd (prepareChildren X opts pr (PNode node # up) (children node))
          (\<lambda>prepared.
             if prepared = [] then ret (DText [], set_children node prepared)
             else
               bnd (children_loop X opts pr node up [0..<length prepared]
                      \<lparr>childNodes = prepared, childDocs = [],
                       handleWhitespaceOfPrevTextNode = False\<rparr>)
                 (\<lambda>st.
                    let forceBreakContent =
                          (1 < length (childNodes st) \<and>
                           list_ex (\<lambda>child. isBlockElement X child opts) (childNodes st))
                    in ret (DConcat (childDocs st @
                                     (if forceBreakContent then [DBreakParent] else [])),
                            set_children node (childNodes st)))))"

subsection \<open>\<^verbatim>\<open>printSvelteBlockChildren\<close>\<close>

definition printSvelteBlockChildren ::
  "helpers \<Rightarrow> options \<Rightarrow> PrintFn \<Rightarrow> node \<Rightarrow> path \<Rightarrow> (doc \<times> node) M" where
  "printSvelteBlockChildren X opts pr node up =
     (let cs = children node in
      if cs = [] then ret (DText [], node)
      else
        (let whitespaceAtStartOfBlock = checkWhitespaceAtStartOfSvelteBlock X node opts;
             whitespaceAtEndOfBlock = checkWhitespaceAtEndOfSvelteBlock X node opts;
             startline =
               (if whitespaceAtStartOfBlock = WNone then DText []
                else if whitespaceAtEndOfBlock = WLine \<or> whitespaceAtStartOfBlock = WLine
                then DHardline else DLine);
             endline =
               (if whitespaceAtEndOfBlock = WNone then DText []
                else if whitespaceAtEndOfBlock = WLine \<or> whitespaceAtStartOfBlock = WLine
                then DHardline else DLine);
             cs1 = (if isTextNodeStartingWithWhitespace X (cs ! 0)
                    then cs[0 := trimTextNodeLeft X (cs ! 0)] else cs);
             lastIdx = length cs - 1;
             cs2 = (if isTextNodeEndingWithWhitespace X (cs1 ! lastIdx)
                    then cs1[lastIdx := trimTextNodeRight X (cs1 ! lastIdx)] else cs1)
         in bnd (printChildren X opts pr (set_children node cs2) up)
              (\<lambda>(d, node').
                 ret (DConcat [DIndent (DConcat [startline, DGroup d]), endline], node'))))"

subsection \<open>The cases of \<^verbatim>\<open>print\<close>\<close>

definition lift :: "err + 'a \<Rightarrow> 'a M" where
  "lift r = (\<lambda>s. (r, s))"

text \<open>Whether a document is truthy (\<^verbatim>\<open>if (htmlDoc)\<close>): every document but the empty
  string is.\<close>

definition doc_truthy :: "doc \<Rightarrow> bool" where
  "doc_truthy d = (d \<noteq> DText [])"

text \<open>The condition under which \<^verbatim>\<open>print\<close> gives the source text of the node back, and the
  document it then returns.\<close>

definition suppressed :: "helpers \<Rightarrow> gstate \<Rightarrow> node \<Rightarrow> bool" where
  "suppressed X s node =
     ((ignoreNext s \<or> (ignoreRange s \<and> \<not> isIgnoreEndDirective X node)) \<and>
      (node_type node \<noteq> ''Text'' \<or> \<not> isEmptyTextNode X node))"

definition print_verbatim :: "options \<Rightarrow> node \<Rightarrow> doc" where
  "print_verbatim opts node =
     DConcat (flatten
       (map (\<lambda>(i, o'). if i = 0 then [DText o'] else [DLiteralline, DText o'])
          (enumerate 0
             (split_nl (js_slice (originalText opts) (locStart opts node) (locEnd opts node))))))"

text \<open>\<^verbatim>\<open>splitTextToDocs\<close>. \<^verbatim>\<open>docs[0] = hardline\<close> on an empty array makes it one element
  long; \<^verbatim>\<open>docs[docs.length - 1] = hardline\<close> on an empty array leaves it empty.\<close>

definition splitTextToDocs :: "helpers \<Rightarrow> node \<Rightarrow> doc list" where
  "splitTextToDocs X node =
     (let text = getUnencodedText X node;
          docs0 = filter (\<lambda>s. s \<noteq> DText []) (join_parts DLine (map DText (split_ws text)));
          docs1 = (if startsWithLinebreak text 1
                   then (if docs0 = [] then [DHardline] else docs0[0 := DHardline])
                   else docs0);
          docs2 = (if startsWithLinebreak text 2 then DHardline # docs1 else docs1);
          docs3 = (if endsWithLinebreak text 1
                   then (if docs2 = [] then [] else docs2[length docs2 - 1 := DHardline])
                   else docs2);
          docs4 = (if endsWithLinebreak text 2 then docs3 @ [DHardline] else docs3)
      in docs4)"

definition print_Text :: "helpers \<Rightarrow> options \<Rightarrow> path \<Rightarrow> node \<Rightarrow> doc" where
  "print_Text X opts path node =
     (if \<not> isPreTagContent X path then
        (if isEmptyTextNode X node then
           (let hasWhiteSpace =
                  length (js_trim (getUnencodedText X node)) < length (getUnencodedText X node);
                hasOneOrMoreNewlines = test_nl (getUnencodedText X node);
                hasTwoOrMoreNewlines = test_two_nl (getUnencodedText X node)
            in if hasTwoOrMoreNewlines then DConcat [DHardline, DHardline]
               else if hasOneOrMoreNewlines then DHardline
               else if hasWhiteSpace then DLine
               else DText [])
         else DFill (splitTextToDocs X node))
      else printPreText X opts path node)"

definition print_Fragment ::
  "helpers \<Rightarrow> options \<Rightarrow> PrintFn \<Rightarrow> node \<Rightarrow> path \<Rightarrow> doc M" where
  "print_Fragment X opts pr node up =
     (let cs = children node; path = PNode node # up in
      if cs = [] \<or> list_all (isEmptyTextNode X) cs then ret (DText [])
      else if \<not> isPreTagContent X path then
        bnd (printChildren X opts pr (set_children node (trimChildren X cs path)) up)
          (\<lambda>(d, node').
             let output = trim X [d]
                   (\<lambda>n. isLine X n \<or> (case n of DText t \<Rightarrow> js_trim t = [] | _ \<Rightarrow> False) \<or>
                        n = DBreakParent)
             in if list_all (isEmptyDoc X) output then ret (DText [])
                else ret (groupConcat (output @ [DHardline])))
      else bnd (path_map pr path cs) (\<lambda>ds. ret (groupConcat ds)))"

text \<open>\<^verbatim>\<open>printJsExpression()\<close>, the closure of \<^verbatim>\<open>print\<close>, for the expression \<open>e\<close> of the
  node.\<close>

definition printJsExpression :: "options \<Rightarrow> PrintFn \<Rightarrow> path \<Rightarrow> node \<Rightarrow> doc list M" where
  \<open>printJsExpression opts pr path e =
     bnd (printJS pr path (svelteStrictMode opts) False False e)
       (\<lambda>d. ret [DText (if svelteStrictMode opts then ''"{'' else ''{''), d,
                 DText (if svelteStrictMode opts then ''}"'' else ''}'')])\<close>

text \<open>\<^verbatim>\<open>node.modifiers && node.modifiers.length ? concat(['|', join('|',
  node.modifiers)]) : ''\<close>, which the source writes out three times.\<close>

definition printModifiers :: "string list \<Rightarrow> doc" where
  "printModifiers ms =
     (if ms \<noteq> [] then DConcat [DText ''|'', join (DText ''|'') (map DText ms)] else DText [])"

text \<open>\<^verbatim>\<open>node.expression ? concat(['=', ...printJsExpression()]) : ''\<close>.\<close>

definition printOptionalExpression ::
  "options \<Rightarrow> PrintFn \<Rightarrow> path \<Rightarrow> node option \<Rightarrow> doc M" where
  "printOptionalExpression opts pr path e =
     (case e of
        None \<Rightarrow> ret (DText [])
      | Some e' \<Rightarrow> bnd (printJsExpression opts pr path e') (\<lambda>js. ret (DConcat (DText ''='' # js))))"

text \<open>\<^verbatim>\<open>printAttributeNodeValue\<close>; the value is a list of nodes where it is called.\<close>

definition value_nodes :: "attrvalue \<Rightarrow> node list" where
  "value_nodes v = (case v of VTrue \<Rightarrow> [] | VNodes ns \<Rightarrow> ns)"

definition printAttributeNodeValue ::
  "helpers \<Rightarrow> PrintFn \<Rightarrow> path \<Rightarrow> bool \<Rightarrow> string \<Rightarrow> attrvalue \<Rightarrow> doc M" where
  "printAttributeNodeValue X pr path quotes name v =
     bnd (path_map pr path (value_nodes v))
       (\<lambda>valueDocs.
          if \<not> quotes \<or> name \<notin> set (formattableAttributes X) then ret (DConcat valueDocs)
          else ret (DIndent (groupConcat (trim X valueDocs (isLine X)))))"

definition print_Attribute ::
  "helpers \<Rightarrow> options \<Rightarrow> PrintFn \<Rightarrow> path \<Rightarrow> string \<Rightarrow> attrvalue \<Rightarrow> doc M" where
  \<open>print_Attribute X opts pr path name v =
     (if isOrCanBeConvertedToShorthand name v then
        (if svelteStrictMode opts then ret (DConcat [DText name, DText ''="{'', DText name, DText ''}"''])
         else if svelteAllowShorthand opts then ret (DConcat [DText ''{'', DText name, DText ''}''])
         else ret (DConcat [DText name, DText ''={'', DText name, DText ''}'']))
      else if v = VTrue then ret (DConcat [DText name])
      else
        (let quotes = (\<not> isLoneMustacheTag X v \<or> svelteStrictMode opts) in
         bnd (printAttributeNodeValue X pr path quotes name v)
           (\<lambda>attrNodeValue.
              if quotes then ret (DConcat [DText name, DText ''='', DText ''"'', attrNodeValue, DText ''"''])
              else ret (DConcat [DText name, DText ''='', attrNodeValue]))))\<close>

definition print_StyleDirective ::
  "helpers \<Rightarrow> options \<Rightarrow> PrintFn \<Rightarrow> path \<Rightarrow> string \<Rightarrow> string list \<Rightarrow> attrvalue \<Rightarrow> doc M" where
  \<open>print_StyleDirective X opts pr path name ms v =
     (let prefix = [DText ''style:'', DText name, printModifiers ms] in
      if isOrCanBeConvertedToShorthand name v \<or> v = VTrue then
        (if svelteStrictMode opts then ret (DConcat (prefix @ [DText ''="{'', DText name, DText ''}"'']))
         else if svelteAllowShorthand opts then ret (DConcat prefix)
         else ret (DConcat (prefix @ [DText ''={'', DText name, DText ''}''])))
      else
        (let quotes = (\<not> isLoneMustacheTag X v \<or> svelteStrictMode opts) in
         bnd (printAttributeNodeValue X pr path quotes name v)
           (\<lambda>attrNodeValue.
              if quotes then ret (DConcat (prefix @ [DText ''='', DText ''"'', attrNodeValue, DText ''"'']))
              else ret (DConcat (prefix @ [DText ''='', attrNodeValue])))))\<close>

definition print_IfBlock ::
  "helpers \<Rightarrow> options \<Rightarrow> PrintFn \<Rightarrow> node \<Rightarrow> path \<Rightarrow> node \<Rightarrow> node option \<Rightarrow> doc M" where
  "print_IfBlock X opts pr node up expression else_block =
     bnd (printSvelteBlockJS pr (PNode node # up) expression)
       (\<lambda>e. bnd (printSvelteBlockChildren X opts pr node up)
          (\<lambda>(body, node').
             bnd (case else_block of
                    None \<Rightarrow> ret []
                  | Some el \<Rightarrow> bnd (path_call pr (PNode node' # up) el) (\<lambda>d. ret [d]))
               (\<lambda>els.
                  ret (DConcat
                    [groupConcat ([DText ''{#if '', e, DText ''}'', body] @ els @ [DText ''{/if}'']),
                     DBreakParent]))))"

text \<open>
  The case \<^verbatim>\<open>ElseBlock\<close>. \<^verbatim>\<open>parent.type\<close> is read only when the block has exactly
  one child and that child is an \<^verbatim>\<open>IfBlock\<close>; without a parent the read throws.
  \<^verbatim>\<open>path.map(f, 'children')[0]\<close> runs \<open>f\<close> on every child and takes the first result.
\<close>

definition on_path :: "(node \<Rightarrow> path \<Rightarrow> 'a M) \<Rightarrow> path \<Rightarrow> 'a M" where
  "on_path f path =
     (case path of
        PNode n # up \<Rightarrow> f n up
      | _ \<Rightarrow> throw (Error ''TypeError: the value of the path is not a node''))"

definition print_ElseBlock ::
  "helpers \<Rightarrow> options \<Rightarrow> PrintFn \<Rightarrow> node \<Rightarrow> path \<Rightarrow> doc M" where
  "print_ElseBlock X opts pr node up =
     (let path = PNode node # up;
          plain = bnd (printSvelteBlockChildren X opts pr node up)
                    (\<lambda>(body, node'). ret (DConcat [DText ''{:else}'', body]))
      in case children node of
           [c] \<Rightarrow>
             (case kind c of
                IfBlock expression ifChildren ifElse \<Rightarrow>
                  (case getParentNode path of
                     None \<Rightarrow> throw (Error ''TypeError: parent is undefined'')
                   | Some parent \<Rightarrow>
                       if \<not> is_EachBlock parent then
                         bnd (path_map (\<lambda>ifPath. printSvelteBlockJS pr ifPath expression) path [c])
                           (\<lambda>es.
                              bnd (path_map (on_path (printSvelteBlockChildren X opts pr)) path [c])
                                (\<lambda>bodies.
                                   bnd (case ifElse of
                                          None \<Rightarrow> ret []
                                        | Some el \<Rightarrow>
                                            bnd (path_map (\<lambda>ifPath. path_call pr ifPath el) path
                                                   (map snd bodies))
                                              (\<lambda>ds. ret [ds ! 0]))
                                     (\<lambda>els.
                                        ret (DConcat
                                          ([DText ''{:else if '', es ! 0, DText ''}'',
                                            fst (bodies ! 0)] @ els)))))
                       else plain)
              | _ \<Rightarrow> plain)
         | _ \<Rightarrow> plain)"

definition print_EachBlock ::
  "helpers \<Rightarrow> options \<Rightarrow> PrintFn \<Rightarrow> node \<Rightarrow> path \<Rightarrow> node \<Rightarrow> node option \<Rightarrow> string option \<Rightarrow>
   node option \<Rightarrow> node option \<Rightarrow> doc M" where
  "print_EachBlock X opts pr node up expression context index key else_block =
     bnd (printSvelteBlockJS pr (PNode node # up) expression)
       (\<lambda>e. bnd (lift (expandNode X context))
          (\<lambda>ctx.
             bnd (case key of
                    None \<Rightarrow> ret []
                  | Some k \<Rightarrow> bnd (printSvelteBlockJS pr (PNode node # up) k)
                               (\<lambda>d. ret [DText '' ('', d, DText '')'']))
               (\<lambda>keyDocs.
                  bnd (printSvelteBlockChildren X opts pr node up)
                    (\<lambda>(body, node').
                       bnd (case else_block of
                              None \<Rightarrow> ret []
                            | Some el \<Rightarrow> bnd (path_call pr (PNode node' # up) el) (\<lambda>d. ret [d]))
                         (\<lambda>els.
                            ret (DConcat
                              [groupConcat
                                 ([DText ''{#each '', e, DText '' as'', DText ctx] @
                                  (case index of
                                     None \<Rightarrow> []
                                   | Some i \<Rightarrow> if i = [] then [] else [DText '', '', DText i]) @
                                  keyDocs @ [DText ''}'', body] @ els @ [DText ''{/each}'']),
                               DBreakParent]))))))"

text \<open>
  The case \<^verbatim>\<open>AwaitBlock\<close>. \<open>hasContent\<close> is
  \<^verbatim>\<open>block.children.some((n) => !isEmptyTextNode(n))\<close>.
\<close>

definition hasContent :: "helpers \<Rightarrow> node \<Rightarrow> bool" where
  "hasContent X block = list_ex (\<lambda>n. \<not> isEmptyTextNode X n) (children block)"

definition print_AwaitBlock ::
  "helpers \<Rightarrow> options \<Rightarrow> PrintFn \<Rightarrow> path \<Rightarrow> node \<Rightarrow> node option \<Rightarrow> node option \<Rightarrow>
   node \<Rightarrow> node \<Rightarrow> node \<Rightarrow> doc M" where
  "print_AwaitBlock X opts pr path expression value error pending then_block catch_block =
     (let hasPendingBlock = hasContent X pending;
          hasThenBlock = hasContent X then_block;
          hasCatchBlock = hasContent X catch_block
      in
      bnd (if \<not> hasPendingBlock \<and> hasThenBlock then
             bnd (printSvelteBlockJS pr path expression)
               (\<lambda>e. bnd (lift (expandNode X value))
                  (\<lambda>v. bnd (path_call pr path then_block)
                     (\<lambda>t. ret [groupConcat [DText ''{#await '', e, DText '' then'', DText v,
                                             DText ''}''], t])))
           else if \<not> hasPendingBlock \<and> hasCatchBlock then
             bnd (printSvelteBlockJS pr path expression)
               (\<lambda>e. bnd (lift (expandNode X error))
                  (\<lambda>v. bnd (path_call pr path catch_block)
                     (\<lambda>c. ret [groupConcat [DText ''{#await '', e, DText '' catch'', DText v,
                                             DText ''}''], c])))
           else
             bnd (printSvelteBlockJS pr path expression)
               (\<lambda>e. bnd (if hasPendingBlock
                          then bnd (path_call pr path pending) (\<lambda>p. ret [p])
                          else ret [])
                  (\<lambda>ps. bnd (if hasThenBlock
                              then bnd (lift (expandNode X value))
                                     (\<lambda>v. bnd (path_call pr path then_block)
                                        (\<lambda>t. ret [groupConcat [DText ''{:then'', DText v,
                                                                DText ''}''], t]))
                              else ret [])
                     (\<lambda>ts. ret ([groupConcat [DText ''{#await '', e, DText ''}'']] @ ps @ ts)))))
        (\<lambda>block.
           bnd (if (hasPendingBlock \<or> hasThenBlock) \<and> hasCatchBlock
                then bnd (lift (expandNode X error))
                       (\<lambda>v. bnd (path_call pr path catch_block)
                          (\<lambda>c. ret [groupConcat [DText ''{:catch'', DText v, DText ''}''], c]))
                else ret [])
             (\<lambda>cs. ret (groupConcat (block @ cs @ [DText ''{/await}''])))))"

definition print_Comment :: "helpers \<Rightarrow> path \<Rightarrow> node \<Rightarrow> string \<Rightarrow> doc M" where
  "print_Comment X path node data =
     (let nodeAfterComment = getNextNode X path in
      if isIgnoreStartDirective X node \<and> isNodeTopLevelHTML X node path then
        bnd (modify (\<lambda>s. s\<lparr>ignoreRange := True\<rparr>)) (\<lambda>u. ret (printComment X data))
      else if isIgnoreEndDirective X node \<and> isNodeTopLevelHTML X node path then
        bnd (modify (\<lambda>s. s\<lparr>ignoreRange := False\<rparr>)) (\<lambda>u. ret (printComment X data))
      else if doesEmbedStartAfterNode X node path \<or>
              (case nodeAfterComment of
                 None \<Rightarrow> False
               | Some n \<Rightarrow> isEmptyTextNode X n \<and> doesEmbedStartAfterNode X n path)
      then ret (DText [])
      else if isIgnoreDirective X node then
        bnd (modify (\<lambda>s. s\<lparr>ignoreNext := True\<rparr>)) (\<lambda>u. ret (printComment X data))
      else ret (printComment X data))"

subsection \<open>\<^verbatim>\<open>printTopLevelParts\<close>\<close>

text \<open>
  \<^verbatim>\<open>n.module.type = 'Script'; n.module.attributes = extractAttributes(getText(n.module,
  options))\<close> and, for the style section, \<^verbatim>\<open>n.css.type = 'Style';
  n.css.content.type = 'StyleProgram'\<close>.
\<close>

definition mark_script :: "helpers \<Rightarrow> options \<Rightarrow> node \<Rightarrow> node" where
  "mark_script X opts m = with_kind m (Script (extractAttributes X (getText X m opts)))"

definition mark_style :: "node \<Rightarrow> node" where
  "mark_style c = (case kind c of Style as \<Rightarrow> c | _ \<Rightarrow> with_kind c (Style []))"

text \<open>The loop of the branch for the sort order \<^verbatim>\<open>none\<close>: a section that ends where a
  child starts is spliced in before the child and deleted from the table.\<close>

fun insert_parts :: "(int \<rightharpoonup> node) \<Rightarrow> node list \<Rightarrow> node list" where
  "insert_parts topLevelPartsByEnd [] = []"
| "insert_parts topLevelPartsByEnd (c # cs) =
     (case topLevelPartsByEnd (nstart c) of
        None \<Rightarrow> c # insert_parts topLevelPartsByEnd cs
      | Some part \<Rightarrow> part # c # insert_parts (topLevelPartsByEnd(nstart c := None)) cs)"

definition put_part :: "node option \<Rightarrow> (int \<rightharpoonup> node) \<Rightarrow> (int \<rightharpoonup> node)" where
  "put_part part m = (case part of None \<Rightarrow> m | Some p \<Rightarrow> m(nend p \<mapsto> p))"

definition call_section :: "PrintFn \<Rightarrow> path \<Rightarrow> node option \<Rightarrow> doc list M" where
  "call_section pr path part =
     (case part of None \<Rightarrow> ret [] | Some p \<Rightarrow> bnd (path_call pr path p) (\<lambda>d. ret [d]))"

text \<open>
  In the sorted branch the globals are reset once the documents of the parts are
  gathered. Under the parent parser \<^verbatim>\<open>markdown\<close> the last document is then read,
  \<^verbatim>\<open>docs[docs.length - 1]\<close>, and handed to \<^verbatim>\<open>trimRight\<close>, whether there is a document
  or not.
\<close>

definition printTopLevelParts ::
  "helpers \<Rightarrow> options \<Rightarrow> PrintFn \<Rightarrow> ast \<Rightarrow> path \<Rightarrow> doc M" where
  "printTopLevelParts X opts pr n up =
     (if svelteSortOrder opts = ''none'' then
        (let n1 = n\<lparr>module_script := map_option (mark_script X opts) (module_script n)\<rparr>;
             n2 = n1\<lparr>instance_script := map_option (mark_script X opts) (instance_script n1)\<rparr>;
             n3 = n2\<lparr>css := map_option mark_style (css n2)\<rparr>;
             topLevelPartsByEnd =
               put_part (css n3) (put_part (instance_script n3) (put_part (module_script n3) Map.empty));
             n4 = n3\<lparr>html := set_children (html n3)
                     (insert_parts topLevelPartsByEnd (getChildren (html n3)))\<rparr>
         in bnd (path_call pr (PRoot n4 # up) (html n4))
              (\<lambda>result.
                 if insertPragma opts \<and> \<not> hasPragma (originalText opts)
                 then ret (DConcat [DText ''<!-- @format -->'', DHardline, result])
                 else ret result))
      else
        (let n1 = n\<lparr>module_script := map_option (mark_script X opts) (module_script n)\<rparr> in
         bnd (call_section pr (PRoot n1 # up) (module_script n1))
           (\<lambda>moduleDocs.
              let n2 = n1\<lparr>instance_script :=
                          map_option (mark_script X opts) (instance_script n1)\<rparr> in
              bnd (call_section pr (PRoot n2 # up) (instance_script n2))
                (\<lambda>instanceDocs.
                   let n3 = n2\<lparr>css := map_option mark_style (css n2)\<rparr> in
                   bnd (call_section pr (PRoot n3 # up) (css n3))
                     (\<lambda>styles.
                        bnd (path_call pr (PRoot n3 # up) (html n3))
                          (\<lambda>htmlDoc.
                             bnd get_state
                               (\<lambda>s.
                                  let scripts = moduleDocs @ instanceDocs;
                                      markup = (if doc_truthy htmlDoc then [htmlDoc] else []);
                                      optionsPart =
                                        (case svelteOptionsDoc s of
                                           None \<Rightarrow> []
                                         | Some d \<Rightarrow> if doc_truthy d then [d] else []);
                                      docs = flatten
                                        (map (\<lambda>p. case p of
                                                     PScripts \<Rightarrow> scripts
                                                   | PMarkup \<Rightarrow> markup
                                                   | PStyles \<Rightarrow> styles
                                                   | POptions \<Rightarrow> optionsPart)
                                           (parseSortOrder X (svelteSortOrder opts)))
                                  in
                                  bnd (modify (\<lambda>s. s\<lparr>ignoreNext := False, ignoreRange := False,
                                                      svelteOptionsDoc := None\<rparr>))
                                    (\<lambda>u.
                                       bnd (if parentParser opts = ''markdown''
                                            then bnd (lift (trimRight X
                                                        (if docs = [] then None
                                                         else Some (last docs)) (isLine X)))
                                                   (\<lambda>lastDoc.
                                                      ret (if docs = [] then docs
                                                           else butlast docs @ [lastDoc]))
                                            else ret docs)
                                         (\<lambda>docs'.
                                            if insertPragma opts \<and>
                                               \<not> hasPragma (originalText opts)
                                            then ret (DConcat [DText ''<!-- @format -->'',
                                                               DHardline, groupConcat docs'])
                                            else ret (groupConcat
                                                        [join DHardline docs']))))))))))"

subsection \<open>\<^verbatim>\<open>print\<close>\<close>

text \<open>
  \<^verbatim>\<open>print(path, options, print)\<close>. Without a value it returns the empty string; on the
  root it prints the top-level parts; on a node it gives the source text back when the
  node is suppressed, and else dispatches on the type of the node. A node of no known
  type goes to \<^verbatim>\<open>generate\<close>. The expression of an \<^verbatim>\<open>AttributeShorthand\<close> is an
  identifier.
\<close>

definition expression_name :: "node \<Rightarrow> string" where
  "expression_name e = (case kind e of JS (Identifier x) f \<Rightarrow> x | _ \<Rightarrow> [])"

definition print_generate :: "helpers \<Rightarrow> node \<Rightarrow> doc M" where
  "print_generate X node =
     (case generate X node of
        Some text \<Rightarrow> ret (DText text)
      | None \<Rightarrow> throw (Error (''unknown node type: '' @ node_type node)))"

definition print :: "helpers \<Rightarrow> options \<Rightarrow> PrintFn \<Rightarrow> path \<Rightarrow> doc M" where
  "print X opts pr path =
     (case path of
        [] \<Rightarrow> ret (DText [])
      | PNull # up \<Rightarrow> ret (DText [])
      | PRoot n # up \<Rightarrow> printTopLevelParts X opts pr (assignCommentsToNodes X n) up
      | PNode node # up \<Rightarrow>
          bnd get_state
            (\<lambda>s.
               if suppressed X s node then
                 bnd (modify (\<lambda>s. if ignoreNext s then s\<lparr>ignoreNext := False\<rparr> else s))
                   (\<lambda>u. ret (print_verbatim opts node))
               else
                 (case kind node of
                    Fragment cs \<Rightarrow> print_Fragment X opts pr node up
                  | Text raw data \<Rightarrow> ret (print_Text X opts path node)
                  | Element t name as cs \<Rightarrow> printElement X opts pr path node
                  | Options name as \<Rightarrow>
                      if svelteSortOrder opts \<noteq> ''none''
                      then throw (Error ''Options tags should have been handled by prepareChildren'')
                      else bnd (path_map (printWithPrependedAttributeLine X node opts pr) path as)
                             (\<lambda>ds. ret (selfClosingTag X opts name ds))
                  | Body name as \<Rightarrow>
                      bnd (path_map (printWithPrependedAttributeLine X node opts pr) path as)
                        (\<lambda>ds. ret (selfClosingTag X opts name ds))
                  | Document name as \<Rightarrow>
                      bnd (path_map (printWithPrependedAttributeLine X node opts pr) path as)
                        (\<lambda>ds. ret (selfClosingTag X opts name ds))
                  | JS (Identifier x) f \<Rightarrow> ret (DText x)
                  | AttributeShorthand e \<Rightarrow> ret (DText (expression_name e))
                  | Attribute name v \<Rightarrow> print_Attribute X opts pr path name v
                  | MustacheTag e \<Rightarrow>
                      bnd (printJS pr path (isInsideQuotedAttribute X path opts) False False e)
                        (\<lambda>d. ret (DConcat [DText ''{'', d, DText ''}'']))
                  | IfBlock e cs el \<Rightarrow> print_IfBlock X opts pr node up e el
                  | ElseBlock cs \<Rightarrow> print_ElseBlock X opts pr node up
                  | EachBlock e c i k cs el \<Rightarrow> print_EachBlock X opts pr node up e c i k el
                  | AwaitBlock e v er p t c \<Rightarrow> print_AwaitBlock X opts pr path e v er p t c
                  | KeyBlock e cs \<Rightarrow>
                      bnd (printSvelteBlockJS pr path e)
                        (\<lambda>d. bnd (printSvelteBlockChildren X opts pr node up)
                           (\<lambda>(body, node').
                              ret (DConcat
                                [groupConcat [DText ''{#key '', d, DText ''}'', body, DText ''{/key}''],
                                 DBreakParent])))
                  | ThenBlock cs \<Rightarrow>
                      bnd (printSvelteBlockChildren X opts pr node up) (\<lambda>(body, node'). ret body)
                  | PendingBlock cs \<Rightarrow>
                      bnd (printSvelteBlockChildren X opts pr node up) (\<lambda>(body, node'). ret body)
                  | CatchBlock cs \<Rightarrow>
                      bnd (printSvelteBlockChildren X opts pr node up) (\<lambda>(body, node'). ret body)
                  | EventHandler name ms e \<Rightarrow>
                      bnd (printOptionalExpression opts pr path e)
                        (\<lambda>v. ret (DConcat [DText ''on:'', DText name, printModifiers ms, v]))
                  | Binding name ms e \<Rightarrow>
                      bnd (if is_identifier_named e name \<and> svelteAllowShorthand opts \<and>
                              \<not> svelteStrictMode opts
                           then ret (DText [])
                           else printOptionalExpression opts pr path (Some e))
                        (\<lambda>v. ret (DConcat [DText ''bind:'', DText name, v]))
                  | Class name ms e \<Rightarrow>
                      bnd (if is_identifier_named e name \<and> svelteAllowShorthand opts \<and>
                              \<not> svelteStrictMode opts
                           then ret (DText [])
                           else printOptionalExpression opts pr path (Some e))
                        (\<lambda>v. ret (DConcat [DText ''class:'', DText name, v]))
                  | StyleDirective name ms v \<Rightarrow> print_StyleDirective X opts pr path name ms v
                  | Let name ms e \<Rightarrow>
                      bnd (case e of
                             None \<Rightarrow> ret (DText [])
                           | Some e' \<Rightarrow>
                               if is_identifier_named e' name then ret (DText [])
                               else printOptionalExpression opts pr path (Some e'))
                        (\<lambda>v. ret (DConcat [DText ''let:'', DText name, v]))
                  | DebugTag ids \<Rightarrow>
                      bnd (if ids \<noteq> []
                           then bnd (path_map pr path ids)
                                  (\<lambda>ds. ret (DConcat [DText '' '', join (DText '', '') ds]))
                           else ret (DText []))
                        (\<lambda>d. ret (DConcat [DText ''{@debug'', d, DText ''}'']))
                  | Ref name \<Rightarrow> ret (DConcat [DText ''ref:'', DText name])
                  | Comment data \<Rightarrow> print_Comment X path node data
                  | Transition name ms intro outro e \<Rightarrow>
                      bnd (printOptionalExpression opts pr path e)
                        (\<lambda>v. ret (DConcat
                           [DText (if intro \<and> outro then ''transition''
                                   else if intro then ''in'' else ''out''),
                            DText '':'', DText name, printModifiers ms, v]))
                  | Action name ms e \<Rightarrow>
                      bnd (printOptionalExpression opts pr path e)
                        (\<lambda>v. ret (DConcat [DText ''use:'', DText name, v]))
                  | Animation name ms e \<Rightarrow>
                      bnd (printOptionalExpression opts pr path e)
                        (\<lambda>v. ret (DConcat [DText ''animate:'', DText name, v]))
                  | RawMustacheTag e \<Rightarrow>
                      bnd (printJS pr path False False False e)
                        (\<lambda>d. ret (DConcat [DText ''{@html '', d, DText ''}'']))
                  | Spread e \<Rightarrow>
                      bnd (printJS pr path False False False e)
                        (\<lambda>d. ret (DConcat [DText ''{...'', d, DText ''}'']))
                  | ConstTag e \<Rightarrow>
                      bnd (printJS pr path False False True e)
                        (\<lambda>d. ret (DConcat [DText ''{@const '', d, DText ''}'']))
                  | _ \<Rightarrow> print_generate X node)))"

section \<open>The host's recursion\<close>

text \<open>
  Modelled from the spec: the child-printer callback of the host, which is not among the
  files. By the spec the callback returns the document of a child of the node and
  threads the same configuration forward: it calls \<^verbatim>\<open>print\<close> again, with itself as the
  callback. The depth of the tree bounds the recursion; \<open>mainPrint\<close> takes that bound
  and throws when it is used up.
\<close>

fun mainPrint :: "helpers \<Rightarrow> options \<Rightarrow> nat \<Rightarrow> PrintFn" where
  "mainPrint X opts 0 = (\<lambda>path. throw (Error ''the tree is deeper than the bound''))"
| "mainPrint X opts (Suc depth) = print X opts (mainPrint X opts depth)"

section \<open>The text of a document\<close>

text \<open>
  The strings of a document in their order, with a line feed for every line: what the
  layout engine prints for a document of strings and literal lines, and the sequence of
  tokens of any document.
\<close>

fun raw_text :: "doc \<Rightarrow> string" where
  "raw_text (DText t) = t"
| "raw_text (DConcat ds) = concat (map raw_text ds)"
| "raw_text (DGroup d) = raw_text d"
| "raw_text (DIndent d) = raw_text d"
| "raw_text (DDedent d) = raw_text d"
| "raw_text (DFill ds) = concat (map raw_text ds)"
| "raw_text DLine = [nl]"
| "raw_text DSoftline = [nl]"
| "raw_text DHardline = [nl]"
| "raw_text DLiteralline = [nl]"
| "raw_text DBreakParent = []"

definition join_lines :: "string list \<Rightarrow> string" where
  "join_lines ls = (case ls of [] \<Rightarrow> [] | l # rest \<Rightarrow> l @ concat (map (\<lambda>o'. nl # o') rest))"

text \<open>The words of a text with a line between them, and \<^verbatim>\<open>splitTextToDocs\<close> as a
  function of the text of the node.\<close>

definition word_docs :: "string \<Rightarrow> doc list" where
  "word_docs t = filter (\<lambda>s. s \<noteq> DText []) (join_parts DLine (map DText (split_ws t)))"

definition split_text :: "string \<Rightarrow> doc list" where
  "split_text text =
     (let docs0 = word_docs text;
          docs1 = (if startsWithLinebreak text 1
                   then (if docs0 = [] then [DHardline] else docs0[0 := DHardline])
                   else docs0);
          docs2 = (if startsWithLinebreak text 2 then DHardline # docs1 else docs1);
          docs3 = (if endsWithLinebreak text 1
                   then (if docs2 = [] then [] else docs2[length docs2 - 1 := DHardline])
                   else docs2);
          docs4 = (if endsWithLinebreak text 2 then docs3 @ [DHardline] else docs3)
      in docs4)"

section \<open>An implementation of the helpers\<close>

text \<open>
  One implementation of the imported helpers, on which the theorems below are run on
  examples. The ignore directives are the comments \<^verbatim>\<open>prettier-ignore\<close>,
  \<^verbatim>\<open>prettier-ignore-start\<close> and \<^verbatim>\<open>prettier-ignore-end\<close>; a block element is a
  \<^verbatim>\<open>div\<close> or a \<^verbatim>\<open>p\<close>, an inline element a \<^verbatim>\<open>span\<close> or an \<^verbatim>\<open>a\<close>; the sort
  order is a list of section names with hyphens between them.
\<close>

definition text_of :: "node \<Rightarrow> string" where
  "text_of n = (case kind n of Text raw data \<Rightarrow> if raw = [] then data else raw | _ \<Rightarrow> [])"

definition comment_is :: "string \<Rightarrow> node \<Rightarrow> bool" where
  "comment_is d n = (case kind n of Comment c \<Rightarrow> js_trim c = d | _ \<Rightarrow> False)"

definition root_of :: "path \<Rightarrow> ast option" where
  "root_of p = (case rev p of PRoot a # rest \<Rightarrow> Some a | _ \<Rightarrow> None)"

fun next_sibling :: "node \<Rightarrow> node list \<Rightarrow> node option" where
  "next_sibling n [] = None"
| "next_sibling n [c] = None"
| "next_sibling n (c # d # cs) = (if c = n then Some d else next_sibling n (d # cs))"

definition element_named :: "string list \<Rightarrow> node \<Rightarrow> bool" where
  "element_named names n =
     (case kind n of Element t name as cs \<Rightarrow> t = TElement \<and> name \<in> set names | _ \<Rightarrow> False)"

fun split_dash :: "string \<Rightarrow> string list" where
  "split_dash [] = [[]]"
| "split_dash (c # cs) =
     (if c = CHR ''-'' then [] # split_dash cs
      else (case split_dash cs of [] \<Rightarrow> [[c]] | w # ws \<Rightarrow> (c # w) # ws))"

definition part_named :: "string \<Rightarrow> SortOrderPart list" where
  "part_named w =
     (if w = ''scripts'' then [PScripts] else if w = ''markup'' then [PMarkup]
      else if w = ''styles'' then [PStyles] else if w = ''options'' then [POptions] else [])"

definition sample_whitespace :: "string \<Rightarrow> whitespace" where
  "sample_whitespace t =
     (if startsWithLinebreak t 1 then WLine
      else (case t of [] \<Rightarrow> WNone | c # cs \<Rightarrow> if is_js_space c then WSpace else WNone))"

definition sample_helpers :: helpers where
  "sample_helpers =
     \<lparr>isBracketSameLine = (\<lambda>opts. False),
      isPreTagContent = (\<lambda>p. list_ex (\<lambda>v. case v of PNode n \<Rightarrow> element_named [''pre''] n | _ \<Rightarrow> False) p),
      getUnencodedText = text_of,
      isIgnoreDirective = comment_is ''prettier-ignore'',
      isIgnoreStartDirective = comment_is ''prettier-ignore-start'',
      isIgnoreEndDirective = comment_is ''prettier-ignore-end'',
      isNodeTopLevelHTML =
        (\<lambda>n p. case root_of p of None \<Rightarrow> False | Some a \<Rightarrow> List.member (children (html a)) n),
      getNextNode =
        (\<lambda>p. case p of PNode n # PNode parent # rest \<Rightarrow> next_sibling n (children parent)
                | _ \<Rightarrow> None),
      doesEmbedStartAfterNode =
        (\<lambda>n p. case root_of p of
                  None \<Rightarrow> False
                | Some a \<Rightarrow>
                    list_ex (\<lambda>part. case part of None \<Rightarrow> False | Some q \<Rightarrow> nstart q = nend n)
                      [css a, instance_script a, module_script a]),
      isBlockElement = (\<lambda>n opts. element_named [''div'', ''p''] n),
      isInlineElement = (\<lambda>p opts n. element_named [''span'', ''a''] n),
      isInsideQuotedAttribute = (\<lambda>p opts. False),
      isLoneMustacheTag =
        (\<lambda>v. case v of
                VNodes [n] \<Rightarrow> (case kind n of MustacheTag e \<Rightarrow> True | _ \<Rightarrow> False)
              | _ \<Rightarrow> False),
      trimChildren = (\<lambda>cs p. cs),
      checkWhitespaceAtStartOfSvelteBlock =
        (\<lambda>n opts. case children n of [] \<Rightarrow> WNone | c # cs \<Rightarrow> sample_whitespace (text_of c)),
      checkWhitespaceAtEndOfSvelteBlock =
        (\<lambda>n opts. case rev (children n) of [] \<Rightarrow> WNone
                   | c # cs \<Rightarrow> sample_whitespace (rev (text_of c))),
      isTextNodeStartingWithWhitespace =
        (\<lambda>n. case text_of n of [] \<Rightarrow> False | c # cs \<Rightarrow> is_js_space c),
      isTextNodeEndingWithWhitespace =
        (\<lambda>n. case rev (text_of n) of [] \<Rightarrow> False | c # cs \<Rightarrow> is_js_space c),
      isTextNodeStartingWithLinebreak = (\<lambda>n k. is_Text n \<and> startsWithLinebreak (text_of n) k),
      isTextNodeEndingWithLinebreak = (\<lambda>n k. is_Text n \<and> endsWithLinebreak (text_of n) k),
      trimTextNodeLeft =
        (\<lambda>n. case kind n of
                Text raw data \<Rightarrow>
                  with_kind n (Text (dropWhile is_js_space raw) (dropWhile is_js_space data))
              | _ \<Rightarrow> n),
      trimTextNodeRight =
        (\<lambda>n. case kind n of
                Text raw data \<Rightarrow>
                  with_kind n (Text (rev (dropWhile is_js_space (rev raw)))
                                    (rev (dropWhile is_js_space (rev data))))
              | _ \<Rightarrow> n),
      formattableAttributes = [],
      printWithPrependedAttributeLine =
        (\<lambda>node opts pr p. bnd (pr p) (\<lambda>d. ret (DConcat [DLine, d]))),
      hasSnippedContent = (\<lambda>t. False),
      unsnipContent = (\<lambda>t. t),
      trim = (\<lambda>ds p. rev (dropWhile p (rev (dropWhile p ds)))),
      trimRight = (\<lambda>d p. case d of
                            None \<Rightarrow> Inl (Error ''TypeError: the document is undefined'')
                          | Some x \<Rightarrow> Inr x),
      isLine = (\<lambda>d. d = DLine \<or> d = DSoftline \<or> d = DHardline \<or> d = DLiteralline),
      isEmptyDoc = (\<lambda>d. d = DText [] \<or> d = DConcat []),
      parseSortOrder = (\<lambda>order. concat (map part_named (split_dash order))),
      extractAttributes = (\<lambda>t. []),
      getText = (\<lambda>n opts. js_slice (originalText opts) (nstart n) (nend n)),
      generate = (\<lambda>n. None),
      assignCommentsToNodes = (\<lambda>a. a),
      expandNode =
        (\<lambda>n. case n of
                None \<Rightarrow> Inr []
              | Some e \<Rightarrow>
                  (case kind e of
                     JS (Identifier x) f \<Rightarrow> Inr (CHR '' '' # x)
                   | _ \<Rightarrow> Inl (Error (''unknown node type: '' @ node_type e)))),
      printElement =
        (\<lambda>opts pr p node.
           case kind node of
             Element t name as cs \<Rightarrow>
               bnd (path_map pr p cs)
                 (\<lambda>ds. ret (groupConcat ([DText ''<'', DText name, DText ''>''] @ ds @
                                          [DText ''</'', DText name, DText ''>''])))
           | _ \<Rightarrow> ret (DText [])),
      printPreText = (\<lambda>opts p n. DText (text_of n))\<rparr>"

definition sample_options :: "string \<Rightarrow> bool \<Rightarrow> bool \<Rightarrow> string \<Rightarrow> options" where
  "sample_options source strict shorthand order =
     \<lparr>svelteStrictMode = strict, svelteAllowShorthand = shorthand, svelteSortOrder = order,
      insertPragma = False, parentParser = [], originalText = source,
      locStart = nstart, locEnd = nend\<rparr>"

definition sample_print :: "options \<Rightarrow> PrintFn" where
  "sample_print opts = mainPrint sample_helpers opts 8"

text \<open>A source of 33 characters: a paragraph, a line feed and two blanks, a \<^verbatim>\<open>div\<close> of
  two lines from offset 11 to offset 25, an \<^verbatim>\<open>i\<close> element.\<close>

definition sample_source :: string where
  "sample_source = ''<p>a</p>'' @ [nl] @ ''  <div>x'' @ [nl] @ ''y</div><i>b</i>''"

definition sample_element :: node where
  "sample_element =
     Node (Element TElement ''div'' [] [Node (Text (''x'' @ [nl] @ ''y'') (''x'' @ [nl] @ ''y'')) 16 19])
       11 25"

text \<open>The pieces of a text with a literal line between them.\<close>

fun literal_lines :: "string list \<Rightarrow> doc list" where
  "literal_lines [] = []"
| "literal_lines [l] = [DText l]"
| "literal_lines (l # m # ls) = DText l # DLiteralline # literal_lines (m # ls)"

definition sample_blank :: node where
  "sample_blank = Node (Text ([nl] @ ''  '') ([nl] @ ''  '')) 8 11"

definition sample_blank3 :: node where
  "sample_blank3 = Node (Text [nl, CHR 0x0D, nl, CHR '' '', nl] [nl, CHR 0x0D, nl, CHR '' '', nl]) 0 5"

definition sample_words :: node where
  "sample_words =
     Node (Text ([nl, nl, nl] @ ''foo  bar'' @ [nl, CHR '' '', nl, nl])
                ([nl, nl, nl] @ ''foo  bar'' @ [nl, CHR '' '', nl, nl])) 0 15"

definition sample_options_node :: node where
  "sample_options_node =
     Node (Options ''svelte:options'' [Node (Attribute ''immutable'' VTrue) 16 25]) 0 28"

definition sample_attribute :: node where
  "sample_attribute =
     Node (Attribute ''foo''
       (VNodes [Node (MustacheTag (Node (JS (Identifier ''foo'') None) 5 8)) 4 9])) 0 9"

text \<open>
  The claim's criterion for a block of an \<^verbatim>\<open>AwaitBlock\<close>, in its own words: the block
  has at least one child that is not whitespace-only, which is any child but a \<^verbatim>\<open>Text\<close>
  all of whose characters are white space.
\<close>

definition whitespace_only :: "helpers \<Rightarrow> node \<Rightarrow> bool" where
  "whitespace_only X n =
     (case kind n of
        Text raw data \<Rightarrow> \<forall>ch\<in>set (getUnencodedText X n). is_js_space ch
      | _ \<Rightarrow> False)"

definition holds_content :: "helpers \<Rightarrow> node \<Rightarrow> bool" where
  "holds_content X block = (\<exists>n\<in>set (kind_children (kind block)). \<not> whitespace_only X n)"

datatype await_form = ShortThen | ShortCatch | FullForm

definition await_form :: "bool \<Rightarrow> bool \<Rightarrow> bool \<Rightarrow> await_form" where
  "await_form hasPending hasThen hasCatch =
     (if \<not> hasPending \<and> hasThen then ShortThen
      else if \<not> hasPending \<and> \<not> hasThen \<and> hasCatch then ShortCatch
      else FullForm)"

definition await_part :: "bool \<Rightarrow> doc list M \<Rightarrow> doc list M" where
  "await_part present m = (if present then m else ret [])"

definition await_delimited ::
  "helpers \<Rightarrow> PrintFn \<Rightarrow> path \<Rightarrow> string \<Rightarrow> node option \<Rightarrow> node \<Rightarrow> doc list M" where
  "await_delimited X pr path delimiter binding block =
     bnd (lift (expandNode X binding))
       (\<lambda>v. bnd (path_call pr path block)
          (\<lambda>body. ret [groupConcat [DText delimiter, DText v, DText ''}''], body]))"

definition await_short ::
  "helpers \<Rightarrow> PrintFn \<Rightarrow> path \<Rightarrow> node \<Rightarrow> string \<Rightarrow> node option \<Rightarrow> node \<Rightarrow> doc list M" where
  "await_short X pr path expression keyword binding block =
     bnd (printSvelteBlockJS pr path expression)
       (\<lambda>e. bnd (lift (expandNode X binding))
          (\<lambda>v. bnd (path_call pr path block)
             (\<lambda>body. ret [groupConcat [DText ''{#await '', e, DText keyword, DText v, DText ''}''],
                           body])))"

text \<open>The rendering of the claim, given which of the three blocks hold content.\<close>

definition await_rendering ::
  "helpers \<Rightarrow> PrintFn \<Rightarrow> path \<Rightarrow> node \<Rightarrow> node option \<Rightarrow> node option \<Rightarrow>
   node \<Rightarrow> node \<Rightarrow> node \<Rightarrow> bool \<Rightarrow> bool \<Rightarrow> bool \<Rightarrow> doc M" where
  "await_rendering X pr path expression value error pending then_block catch_block
     hasPending hasThen hasCatch =
     (case await_form hasPending hasThen hasCatch of
           ShortThen \<Rightarrow>
             bnd (await_short X pr path expression '' then'' value then_block)
               (\<lambda>opening.
                  bnd (await_part hasCatch (await_delimited X pr path ''{:catch'' error catch_block))
                    (\<lambda>catchPart. ret (groupConcat (opening @ catchPart @ [DText ''{/await}'']))))
         | ShortCatch \<Rightarrow>
             bnd (await_short X pr path expression '' catch'' error catch_block)
               (\<lambda>opening. ret (groupConcat (opening @ [DText ''{/await}''])))
         | FullForm \<Rightarrow>
             bnd (printSvelteBlockJS pr path expression)
               (\<lambda>e.
                  bnd (await_part hasPending
                         (bnd (path_call pr path pending) (\<lambda>body. ret [body])))
                    (\<lambda>pendingPart.
                       bnd (await_part hasThen
                              (await_delimited X pr path ''{:then'' value then_block))
                         (\<lambda>thenPart.
                            bnd (await_part hasCatch
                                   (await_delimited X pr path ''{:catch'' error catch_block))
                              (\<lambda>catchPart.
                                 ret (groupConcat
                                   ([groupConcat [DText ''{#await '', e, DText ''}'']] @
                                    pendingPart @ thenPart @ catchPart @
                                    [DText ''{/await}''])))))))"

text \<open>An await block whose pending block holds nothing but a line feed and two blanks, one
  with content in all three blocks, and one with content in the catch block alone.\<close>

definition sample_await :: node where
  "sample_await =
     Node (AwaitBlock (Node (JS (Identifier ''p'') None) 8 9)
             (Some (Node (JS (Identifier ''v'') None) 20 21)) None
             (Node (PendingBlock [Node (Text [nl, CHR '' '', CHR '' ''] [nl, CHR '' '', CHR '' ''])
                                    10 13]) 10 13)
             (Node (ThenBlock [Node (Text ''A'' ''A'') 22 23]) 13 23)
             (Node (CatchBlock []) 23 23)) 0 31"

definition sample_await_full :: node where
  "sample_await_full =
     Node (AwaitBlock (Node (JS (Identifier ''p'') None) 8 9)
             (Some (Node (JS (Identifier ''v'') None) 18 19))
             (Some (Node (JS (Identifier ''e'') None) 29 30))
             (Node (PendingBlock [Node (Text ''W'' ''W'') 10 11]) 10 11)
             (Node (ThenBlock [Node (Text ''A'' ''A'') 20 21]) 11 21)
             (Node (CatchBlock [Node (Text ''E'' ''E'') 31 32]) 21 32)) 0 40"

definition sample_await_catch :: node where
  "sample_await_catch =
     Node (AwaitBlock (Node (JS (Identifier ''p'') None) 8 9) None
             (Some (Node (JS (Identifier ''e'') None) 16 17))
             (Node (PendingBlock []) 9 9)
             (Node (ThenBlock []) 9 9)
             (Node (CatchBlock [Node (Text ''E'' ''E'') 18 19]) 9 19)) 0 27"

definition else_if_chain ::
  "helpers \<Rightarrow> options \<Rightarrow> PrintFn \<Rightarrow> path \<Rightarrow> node \<Rightarrow> node \<Rightarrow> node option \<Rightarrow> doc M" where
  "else_if_chain X opts pr path ifNode condition ifElse =
     bnd (printSvelteBlockJS pr (PNode ifNode # path) condition)
       (\<lambda>cond.
          bnd (printSvelteBlockChildren X opts pr ifNode path)
            (\<lambda>(body, ifNode').
               bnd (case ifElse of
                      None \<Rightarrow> ret []
                    | Some el \<Rightarrow> bnd (pr (PNode el # PNode ifNode' # path)) (\<lambda>d. ret [d]))
                 (\<lambda>chain. ret (DConcat ([DText ''{:else if '', cond, DText ''}'', body] @ chain)))))"

definition else_nested :: "helpers \<Rightarrow> options \<Rightarrow> PrintFn \<Rightarrow> node \<Rightarrow> path \<Rightarrow> doc M" where
  "else_nested X opts pr node up =
     bnd (printSvelteBlockChildren X opts pr node up)
       (\<lambda>(body, node'). ret (DConcat [DText ''{:else}'', body]))"

definition sample_inner_if :: node where
  "sample_inner_if =
     Node (IfBlock (Node (JS (Identifier ''y'') None) 18 19) [Node (Text ''B'' ''B'') 20 21] None) 9 21"

definition sample_else :: node where
  "sample_else = Node (ElseBlock [sample_inner_if]) 9 21"

definition sample_outer_if :: node where
  "sample_outer_if =
     Node (IfBlock (Node (JS (Identifier ''x'') None) 5 6) [Node (Text ''A'' ''A'') 7 8]
             (Some sample_else)) 0 26"

definition sample_each :: node where
  "sample_each =
     Node (EachBlock (Node (JS (Identifier ''xs'') None) 7 9)
             (Some (Node (JS (Identifier ''x'') None) 13 14)) None None
             [Node (Text ''A'' ''A'') 15 16] (Some sample_else)) 0 40"

definition results :: "'a M \<Rightarrow> ('a \<Rightarrow> bool) \<Rightarrow> bool" where
  "results m R = (\<forall>s r s'. m s = (Inr r, s') \<longrightarrow> R r)"

definition sample_div :: node where
  "sample_div = Node (Element TElement ''div'' [] []) 0 11"

definition sample_parent :: node where
  "sample_parent = Node (Fragment [sample_div, Node (Text ''hello'' ''hello'') 11 16]) 0 16"




















text \<open>
  Modelled from the spec: the host's printing of a script or style section, which it
  delegates to a sub-printer of the embedded language that is not among the files. In
  this callback the text of the section in the source stands for what the sub-printer
  returns; every other value goes to \<^verbatim>\<open>print\<close>.
\<close>

definition sample_host :: "options \<Rightarrow> PrintFn" where
  "sample_host opts path =
     (case path of
        PNode n # up \<Rightarrow>
          (case kind n of
             Script as \<Rightarrow> ret (DText (js_slice (originalText opts) (nstart n) (nend n)))
           | Style as \<Rightarrow> ret (DText (js_slice (originalText opts) (nstart n) (nend n)))
           | _ \<Rightarrow> sample_print opts path)
      | _ \<Rightarrow> sample_print opts path)"

text \<open>A source of 35 characters with an instance script, the markup \<^verbatim>\<open>m\<close> and a style, in
  that order, and the options that sort them as styles, scripts, markup.\<close>

definition sample_sections_source :: string where
  "sample_sections_source = ''<script>s</script>m<style>c</style>''"

definition sample_sections_ast :: ast where
  "sample_sections_ast =
     \<lparr>html = Node (Fragment [Node (Text ''m'' ''m'') 18 19]) 18 19,
      css = Some (Node (Style []) 19 35),
      instance_script = Some (Node (Script []) 0 18),
      module_script = None\<rparr>"

definition sample_reorder :: "bool \<Rightarrow> options" where
  "sample_reorder pragma =
     (sample_options sample_sections_source False True ''styles-scripts-markup'')
       \<lparr>insertPragma := pragma\<rparr>"

section \<open>Lemmas\<close>

lemma sample_fields [simp]:
  "isBracketSameLine sample_helpers = (\<lambda>opts. False)"
  "isPreTagContent sample_helpers = (\<lambda>p. list_ex (\<lambda>v. case v of PNode n \<Rightarrow> element_named [''pre''] n | _ \<Rightarrow> False) p)"
  "getUnencodedText sample_helpers = text_of"
  "isIgnoreDirective sample_helpers = comment_is ''prettier-ignore''"
  "isIgnoreStartDirective sample_helpers = comment_is ''prettier-ignore-start''"
  "isIgnoreEndDirective sample_helpers = comment_is ''prettier-ignore-end''"
  "isNodeTopLevelHTML sample_helpers = (\<lambda>n p. case root_of p of None \<Rightarrow> False | Some a \<Rightarrow> List.member (children (html a)) n)"
  "getNextNode sample_helpers = (\<lambda>p. case p of PNode n # PNode parent # rest \<Rightarrow> next_sibling n (children parent) | _ \<Rightarrow> None)"
  "doesEmbedStartAfterNode sample_helpers = (\<lambda>n p. case root_of p of None \<Rightarrow> False | Some a \<Rightarrow> list_ex (\<lambda>part. case part of None \<Rightarrow> False | Some q \<Rightarrow> nstart q = nend n) [css a, instance_script a, module_script a])"
  "isBlockElement sample_helpers = (\<lambda>n opts. element_named [''div'', ''p''] n)"
  "isInlineElement sample_helpers = (\<lambda>p opts n. element_named [''span'', ''a''] n)"
  "isInsideQuotedAttribute sample_helpers = (\<lambda>p opts. False)"
  "isLoneMustacheTag sample_helpers = (\<lambda>v. case v of VNodes [n] \<Rightarrow> (case kind n of MustacheTag e \<Rightarrow> True | _ \<Rightarrow> False) | _ \<Rightarrow> False)"
  "trimChildren sample_helpers = (\<lambda>cs p. cs)"
  "checkWhitespaceAtStartOfSvelteBlock sample_helpers = (\<lambda>n opts. case children n of [] \<Rightarrow> WNone | c # cs \<Rightarrow> sample_whitespace (text_of c))"
  "checkWhitespaceAtEndOfSvelteBlock sample_helpers = (\<lambda>n opts. case rev (children n) of [] \<Rightarrow> WNone | c # cs \<Rightarrow> sample_whitespace (rev (text_of c)))"
  "isTextNodeStartingWithWhitespace sample_helpers = (\<lambda>n. case text_of n of [] \<Rightarrow> False | c # cs \<Rightarrow> is_js_space c)"
  "isTextNodeEndingWithWhitespace sample_helpers = (\<lambda>n. case rev (text_of n) of [] \<Rightarrow> False | c # cs \<Rightarrow> is_js_space c)"
  "isTextNodeStartingWithLinebreak sample_helpers = (\<lambda>n k. is_Text n \<and> startsWithLinebreak (text_of n) k)"
  "isTextNodeEndingWithLinebreak sample_helpers = (\<lambda>n k. is_Text n \<and> endsWithLinebreak (text_of n) k)"
  "trimTextNodeLeft sample_helpers = (\<lambda>n. case kind n of Text raw data \<Rightarrow> with_kind n (Text (dropWhile is_js_space raw) (dropWhile is_js_space data)) | _ \<Rightarrow> n)"
  "trimTextNodeRight sample_helpers = (\<lambda>n. case kind n of Text raw data \<Rightarrow> with_kind n (Text (rev (dropWhile is_js_space (rev raw))) (rev (dropWhile is_js_space (rev data)))) | _ \<Rightarrow> n)"
  "formattableAttributes sample_helpers = []"
  "printWithPrependedAttributeLine sample_helpers = (\<lambda>node opts pr p. bnd (pr p) (\<lambda>d. ret (DConcat [DLine, d])))"
  "hasSnippedContent sample_helpers = (\<lambda>t. False)"
  "unsnipContent sample_helpers = (\<lambda>t. t)"
  "trim sample_helpers = (\<lambda>ds p. rev (dropWhile p (rev (dropWhile p ds))))"
  "trimRight sample_helpers =
     (\<lambda>d p. case d of None \<Rightarrow> Inl (Error ''TypeError: the document is undefined'')
             | Some x \<Rightarrow> Inr x)"
  "isLine sample_helpers = (\<lambda>d. d = DLine \<or> d = DSoftline \<or> d = DHardline \<or> d = DLiteralline)"
  "isEmptyDoc sample_helpers = (\<lambda>d. d = DText [] \<or> d = DConcat [])"
  "parseSortOrder sample_helpers = (\<lambda>order. concat (map part_named (split_dash order)))"
  "extractAttributes sample_helpers = (\<lambda>t. [])"
  "getText sample_helpers = (\<lambda>n opts. js_slice (originalText opts) (nstart n) (nend n))"
  "generate sample_helpers = (\<lambda>n. None)"
  "assignCommentsToNodes sample_helpers = (\<lambda>a. a)"
  "expandNode sample_helpers = (\<lambda>n. case n of None \<Rightarrow> Inr [] | Some e \<Rightarrow> (case kind e of JS (Identifier x) f \<Rightarrow> Inr (CHR '' '' # x) | _ \<Rightarrow> Inl (Error (''unknown node type: '' @ node_type e))))"
  "printElement sample_helpers = (\<lambda>opts pr p node. case kind node of Element t name as cs \<Rightarrow> bnd (path_map pr p cs) (\<lambda>ds. ret (groupConcat ([DText ''<'', DText name, DText ''>''] @ ds @ [DText ''</'', DText name, DText ''>'']))) | _ \<Rightarrow> ret (DText []))"
  "printPreText sample_helpers = (\<lambda>opts p n. DText (text_of n))"
  by (simp_all add: sample_helpers_def)

lemmas monad_defs = bnd_def ret_def throw_def get_state_def modify_def lift_def

lemma bnd_ret [simp]: "bnd (ret x) f = f x"
  by (simp add: bnd_def ret_def)

lemma bnd_throw [simp]: "bnd (throw e) f = throw e"
  by (simp add: bnd_def throw_def)

lemma ret_apply: "ret x s = (Inr x, s)"
  by (simp add: ret_def)

lemma throw_apply: "throw e s = (Inl e, s)"
  by (simp add: throw_def)

lemma bnd_apply: "bnd m f s = (case m s of (Inl e, s') \<Rightarrow> (Inl e, s') | (Inr x, s') \<Rightarrow> f x s')"
  by (simp add: bnd_def)

lemma bnd_get_state: "bnd get_state f s = f s s"
  by (simp add: bnd_def get_state_def)

lemma bnd_modify: "bnd (modify g) f s = f () (g s)"
  by (simp add: bnd_def modify_def)

lemma split_nl_not_Nil: "split_nl s \<noteq> []"
  by (induction s) (auto split: list.splits)

lemma join_lines_split_nl: "join_lines (split_nl s) = s"
  by (induction s) (auto simp: join_lines_def split: list.splits)

lemma flatten_enumerate_Suc:
  "concat (map raw_text (flatten (map (\<lambda>(i, o'). if i = 0 then [DText o'] else [DLiteralline, DText o'])
      (enumerate (Suc n) ls)))) = concat (map (\<lambda>o'. nl # o') ls)"
  by (induction ls arbitrary: n) (auto simp: flatten_def)

lemma raw_text_verbatim_lines:
  "raw_text (DConcat (flatten (map (\<lambda>(i, o'). if i = 0 then [DText o'] else [DLiteralline, DText o'])
      (enumerate 0 ls)))) = join_lines ls"
proof (cases ls)
  case Nil
  then show ?thesis by (simp add: flatten_def join_lines_def)
next
  case (Cons l rest)
  have "concat (map raw_text (flatten (map (\<lambda>(i, o'). if i = 0 then [DText o'] else [DLiteralline, DText o'])
      (enumerate (Suc 0) rest)))) = concat (map (\<lambda>o'. nl # o') rest)"
    by (rule flatten_enumerate_Suc)
  with Cons show ?thesis
    by (simp add: flatten_def join_lines_def)
qed

lemma raw_text_print_verbatim:
  "raw_text (print_verbatim opts node) =
     js_slice (originalText opts) (locStart opts node) (locEnd opts node)"
  unfolding print_verbatim_def by (simp only: raw_text_verbatim_lines join_lines_split_nl)

lemma isEmptyTextNode_type: "isEmptyTextNode X n \<Longrightarrow> node_type n = ''Text''"
  by (cases n) (auto simp: isEmptyTextNode_def is_Text_def node_type_def split: nkind.splits)

lemma print_suppressed:
  assumes "suppressed X s node"
  shows "print X opts pr (PNode node # up) s = (Inr (print_verbatim opts node), s\<lparr>ignoreNext := False\<rparr>)"
  using assms by (simp add: print_def bnd_get_state bnd_modify ret_apply)

lemma js_trim_Nil_iff: "js_trim t = [] \<longleftrightarrow> (\<forall>c\<in>set t. is_js_space c)"
proof
  assume "js_trim t = []"
  then have a: "\<forall>c\<in>set (dropWhile is_js_space t). is_js_space c"
    by (simp add: js_trim_def dropWhile_eq_Nil_conv)
  have "dropWhile is_js_space t = []"
  proof (cases "dropWhile is_js_space t")
    case Nil then show ?thesis .
  next
    case (Cons x xs)
    then have "\<not> is_js_space x" by (metis hd_dropWhile list.sel(1) list.distinct(1))
    with a Cons show ?thesis by simp
  qed
  then show "\<forall>c\<in>set t. is_js_space c" by (simp add: dropWhile_eq_Nil_conv)
next
  assume "\<forall>c\<in>set t. is_js_space c"
  then show "js_trim t = []" by (auto simp: js_trim_def dest: set_dropWhileD)
qed

lemma ws_then_nl_iff: "\<forall>c\<in>set t. is_js_space c \<Longrightarrow> ws_then_nl t \<longleftrightarrow> nl \<in> set t"
  by (induction t) auto

lemma test_two_nl_iff:
  "\<forall>c\<in>set t. is_js_space c \<Longrightarrow> test_two_nl t \<longleftrightarrow> 2 \<le> count_list t nl"
proof (induction t)
  case Nil
  then show ?case by simp
next
  case (Cons c cs)
  have m: "nl \<in> set cs \<longleftrightarrow> 1 \<le> count_list cs nl"
    by (metis count_list_0_iff not_less_eq_eq One_nat_def le_zero_eq)
  from Cons show ?case by (auto simp: ws_then_nl_iff m)
qed

lemma test_nl_iff: "test_nl t \<longleftrightarrow> 1 \<le> count_list t nl"
  unfolding test_nl_def by (metis count_list_0_iff not_less_eq_eq One_nat_def le_zero_eq)

lemma print_Text_empty:
  assumes "\<not> isPreTagContent X path" "isEmptyTextNode X node"
  shows "print_Text X opts path node =
     (let t = getUnencodedText X node in
      if 2 \<le> count_list t nl then DConcat [DHardline, DHardline]
      else if count_list t nl = 1 then DHardline
      else if t \<noteq> [] then DLine
      else DText [])"
proof -
  from assms(2) have ws: "\<forall>c\<in>set (getUnencodedText X node). is_js_space c" and tr: "js_trim (getUnencodedText X node) = []"
    by (simp_all add: isEmptyTextNode_def js_trim_Nil_iff)
  show ?thesis using assms
    by (auto simp: print_Text_def Let_def test_two_nl_iff [OF ws] test_nl_iff tr)
qed

lemma startsWithLinebreak_mono: "startsWithLinebreak t (Suc n) \<Longrightarrow> startsWithLinebreak t n"
proof (induction n arbitrary: t)
  case 0
  then show ?case by simp
next
  case (Suc n)
  from Suc.prems obtain r where d: "dropWhile is_blank t = nl # r" and r: "startsWithLinebreak r (Suc n)"
    by (auto simp del: dropWhile_eq_Nil_conv split: list.splits)
  from Suc.IH [OF r] d show ?case by simp
qed

lemma startsWithLinebreak_le: "startsWithLinebreak t k \<Longrightarrow> n \<le> k \<Longrightarrow> startsWithLinebreak t n"
proof (induction k)
  case 0
  then show ?case by simp
next
  case (Suc k)
  show ?case
  proof (cases "n = Suc k")
    case True
    with Suc.prems show ?thesis by simp
  next
    case False
    with Suc.prems have "n \<le> k" by simp
    with Suc.IH startsWithLinebreak_mono [OF Suc.prems(1)] show ?thesis by blast
  qed
qed

lemma is_blank_sep: "is_blank c \<Longrightarrow> is_sep c"
  by (auto simp: is_blank_def is_sep_def)

lemma sep_js_space: "is_sep c \<Longrightarrow> is_js_space c"
  by (auto simp: is_js_space_def is_sep_def)

lemma startsWithLinebreak_sep:
  assumes "startsWithLinebreak t (Suc n)"
  shows "t \<noteq> [] \<and> is_sep (hd t)"
proof -
  from assms obtain rest where d: "dropWhile is_blank t = nl # rest"
    by (auto split: list.splits)
  then have ne: "t \<noteq> []" by auto
  show ?thesis
  proof (cases "is_blank (hd t)")
    case True
    then show ?thesis using ne is_blank_sep by blast
  next
    case False
    with ne have "dropWhile is_blank t = t" by (cases t) auto
    with d show ?thesis by (simp add: is_sep_def)
  qed
qed

lemma split_ws_nonsep: "\<not> is_sep c \<Longrightarrow> \<exists>w ws. split_ws (c # cs) = (c # w) # ws"
  by (cases cs) (auto split: list.splits)

lemma split_ws_allsep: "t \<noteq> [] \<Longrightarrow> \<forall>c\<in>set t. is_sep c \<Longrightarrow> split_ws t = [[], []]"
  by (induction t rule: split_ws.induct) auto

lemma split_ws_leading:
  "t \<noteq> [] \<Longrightarrow> is_sep (hd t) \<Longrightarrow> \<exists>x\<in>set t. \<not> is_sep x \<Longrightarrow>
   \<exists>w ws. w \<noteq> [] \<and> split_ws t = [] # w # ws"
proof (induction t rule: split_ws.induct)
  case 1
  then show ?case by simp
next
  case (2 c)
  then show ?case by simp
next
  case (3 c d ds)
  then have c: "is_sep c" by simp
  show ?case
  proof (cases "is_sep d")
    case True
    with 3 c have "\<exists>w ws. w \<noteq> [] \<and> split_ws (d # ds) = [] # w # ws" by auto
    with True c show ?thesis by simp
  next
    case False
    from split_ws_nonsep [OF False, of ds] obtain w ws where "split_ws (d # ds) = (d # w) # ws"
      by auto
    with False c show ?thesis by simp
  qed
qed

lemma split_ws_trailing:
  "t \<noteq> [] \<Longrightarrow> is_sep (last t) \<Longrightarrow> \<exists>x\<in>set t. \<not> is_sep x \<Longrightarrow>
   \<exists>front w. w \<noteq> [] \<and> split_ws t = front @ [w, []]"
proof (induction t rule: split_ws.induct)
  case 1
  then show ?case by simp
next
  case (2 c)
  then show ?case by simp
next
  case (3 c d ds)
  let ?cs = "d # ds"
  have l: "is_sep (last ?cs)" using 3 by simp
  show ?case
  proof (cases "is_sep c")
    case True
    with 3 have ex: "\<exists>x\<in>set ?cs. \<not> is_sep x" by auto
    show ?thesis
    proof (cases "is_sep d")
      case d: True
      from 3(1) [OF True d _ l ex] obtain front w where
        fw: "w \<noteq> []" "split_ws ?cs = front @ [w, []]" by blast
      with True d show ?thesis by auto
    next
      case d: False
      from 3(2) [OF True d _ l ex] obtain front w where
        fw: "w \<noteq> []" "split_ws ?cs = front @ [w, []]" by blast
      with True d have "split_ws (c # ?cs) = ([] # front) @ [w, []]" by simp
      with fw(1) show ?thesis by blast
    qed
  next
    case False
    show ?thesis
    proof (cases "\<exists>x\<in>set ?cs. \<not> is_sep x")
      case True
      from 3(3) [OF False _ l True] obtain front w where
        fw: "w \<noteq> []" "split_ws ?cs = front @ [w, []]" by blast
      show ?thesis
      proof (cases front)
        case Nil
        with fw False have "split_ws (c # ?cs) = [] @ [c # w, []]" by simp
        then show ?thesis by blast
      next
        case (Cons f fs)
        with fw False have "split_ws (c # ?cs) = ((c # f) # fs) @ [w, []]" by simp
        with fw(1) show ?thesis by blast
      qed
    next
      case nosep: False
      then have "split_ws ?cs = [[], []]" using split_ws_allsep [of ?cs] by blast
      with False have "split_ws (c # ?cs) = [] @ [[c], []]" by simp
      then show ?thesis by blast
    qed
  qed
qed

lemma join_parts_Cons: "\<exists>r. join_parts sep (d # ds) = d # r"
  by (cases ds) auto

lemma join_parts_snoc2:
  "join_parts sep (xs @ [a, b]) = (if xs = [] then [] else join_parts sep xs @ [sep]) @ [a, sep, b]"
  by (induction sep xs rule: join_parts.induct) auto

lemma word_docs_leading:
  assumes "t \<noteq> []" "is_sep (hd t)" "\<exists>x\<in>set t. \<not> is_sep x"
  shows "\<exists>w rest. w \<noteq> [] \<and> word_docs t = DLine # DText w # rest"
proof -
  from split_ws_leading [OF assms] obtain w ws where w: "w \<noteq> []" "split_ws t = [] # w # ws" by blast
  obtain r where "join_parts DLine (DText w # map DText ws) = DText w # r"
    using join_parts_Cons by blast
  with w show ?thesis by (simp add: word_docs_def)
qed

lemma word_docs_trailing:
  assumes "t \<noteq> []" "is_sep (last t)" "\<exists>x\<in>set t. \<not> is_sep x"
  shows "\<exists>front w. w \<noteq> [] \<and> word_docs t = front @ [DText w, DLine]"
proof -
  from split_ws_trailing [OF assms] obtain front w where
    w: "w \<noteq> []" "split_ws t = front @ [w, []]" by blast
  have "map DText (split_ws t) = map DText front @ [DText w, DText []]" using w by simp
  then have "word_docs t =
     filter (\<lambda>s. s \<noteq> DText [])
       (if map DText front = [] then [] else join_parts DLine (map DText front) @ [DLine]) @ [DText w, DLine]"
    using w(1) by (simp add: word_docs_def join_parts_snoc2 del: map_is_Nil_conv)
  with w(1) show ?thesis by blast
qed

lemma splitTextToDocs_split_text: "splitTextToDocs X node = split_text (getUnencodedText X node)"
  unfolding splitTextToDocs_def split_text_def word_docs_def Let_def ..

lemma startsWithLinebreak_sep':
  "startsWithLinebreak t n \<Longrightarrow> 0 < n \<Longrightarrow> t \<noteq> [] \<and> is_sep (hd t)"
  using startsWithLinebreak_sep [of t "n - 1"] by (cases n) auto

lemma endsWithLinebreak_sep:
  assumes "endsWithLinebreak t n" "0 < n"
  shows "t \<noteq> [] \<and> is_sep (last t)"
  using startsWithLinebreak_sep' [of "rev t" n] assms
  by (simp add: endsWithLinebreak_def hd_rev)

lemma list_update_last_snoc2: "(xs @ [a, b])[length (xs @ [a, b]) - 1 := c] = xs @ [a, c]"
  by (simp add: list_update_append)

lemma split_text_leading:
  assumes k: "startsWithLinebreak t k" "2 \<le> k" and ne: "\<exists>x\<in>set t. \<not> is_sep x"
  shows "\<exists>w rest. w \<noteq> [] \<and> split_text t = DHardline # DHardline # DText w # rest"
proof -
  have s1: "startsWithLinebreak t 1"
    by (rule startsWithLinebreak_le [OF k(1)]) (use k(2) in simp)
  have s2: "startsWithLinebreak t 2"
    by (rule startsWithLinebreak_le [OF k(1)]) (use k(2) in simp)
  from startsWithLinebreak_sep' [OF s1] have hd: "t \<noteq> []" "is_sep (hd t)" by auto
  from word_docs_leading [OF hd ne] obtain w r0 where
    w: "w \<noteq> []" and d0: "word_docs t = DLine # DText w # r0" by blast
  define docs2 where "docs2 = DHardline # DHardline # DText w # r0"
  have d2: "(if startsWithLinebreak t 2 then DHardline #
              (if startsWithLinebreak t 1
                   then (if word_docs t = [] then [DHardline] else (word_docs t)[0 := DHardline])
                   else word_docs t)
            else (if startsWithLinebreak t 1
                   then (if word_docs t = [] then [DHardline] else (word_docs t)[0 := DHardline])
                   else word_docs t)) = docs2"
    by (simp only: s1 s2 d0 docs2_def if_True) simp
  have st: "split_text t =
     (let docs3 = (if endsWithLinebreak t 1
                   then (if docs2 = [] then [] else docs2[length docs2 - 1 := DHardline])
                   else docs2)
      in if endsWithLinebreak t 2 then docs3 @ [DHardline] else docs3)"
    unfolding split_text_def Let_def d2 ..
  have e: "\<exists>r1. (if endsWithLinebreak t 1
                   then (if docs2 = [] then [] else docs2[length docs2 - 1 := DHardline])
                   else docs2) = DHardline # DHardline # DText w # r1"
  proof (cases "endsWithLinebreak t 1")
    case True
    with endsWithLinebreak_sep [of t 1] have "t \<noteq> []" "is_sep (last t)" by auto
    from word_docs_trailing [OF this ne] obtain front w' where
      "word_docs t = front @ [DText w', DLine]" by blast
    with d0 have "r0 \<noteq> []" by (cases front) auto
    then obtain x xs where "r0 = x # xs" by (cases r0) auto
    with True show ?thesis by (simp add: docs2_def)
  next
    case False
    then show ?thesis by (simp add: docs2_def)
  qed
  then obtain r1 where "(if endsWithLinebreak t 1
                   then (if docs2 = [] then [] else docs2[length docs2 - 1 := DHardline])
                   else docs2) = DHardline # DHardline # DText w # r1" by blast
  then have "split_text t = (if endsWithLinebreak t 2 then DHardline # DHardline # DText w # r1 @ [DHardline]
       else DHardline # DHardline # DText w # r1)"
    unfolding st Let_def by simp
  with w show ?thesis by (cases "endsWithLinebreak t 2") auto
qed

lemma split_text_trailing:
  assumes k: "endsWithLinebreak t k" "2 \<le> k" and ne: "\<exists>x\<in>set t. \<not> is_sep x"
  shows "\<exists>front w. w \<noteq> [] \<and> split_text t = front @ [DText w, DHardline, DHardline]"
proof -
  have e1: "endsWithLinebreak t 1"
    unfolding endsWithLinebreak_def
    by (rule startsWithLinebreak_le [OF k(1) [unfolded endsWithLinebreak_def]]) (use k(2) in simp)
  have e2: "endsWithLinebreak t 2"
    unfolding endsWithLinebreak_def
    by (rule startsWithLinebreak_le [OF k(1) [unfolded endsWithLinebreak_def]]) (use k(2) in simp)
  from endsWithLinebreak_sep [OF e1] have l: "t \<noteq> []" "is_sep (last t)" by auto
  from word_docs_trailing [OF l ne] obtain R w where
    w: "w \<noteq> []" and d0: "word_docs t = R @ [DText w, DLine]" by blast
  define docs1 where "docs1 = (if startsWithLinebreak t 1
                   then (if word_docs t = [] then [DHardline] else (word_docs t)[0 := DHardline])
                   else word_docs t)"
  have "\<exists>R1. docs1 = R1 @ [DText w, DLine]"
  proof (cases "startsWithLinebreak t 1")
    case True
    with startsWithLinebreak_sep' [of t 1] have "t \<noteq> []" "is_sep (hd t)" by auto
    from word_docs_leading [OF this ne] obtain w0 r0 where "word_docs t = DLine # DText w0 # r0" by blast
    with d0 obtain x R' where "R = x # R'" by (cases R) auto
    with d0 True show ?thesis by (simp add: docs1_def)
  next
    case False
    with d0 show ?thesis by (simp add: docs1_def)
  qed
  then obtain R1 where r1: "docs1 = R1 @ [DText w, DLine]" by blast
  define docs2 where "docs2 = (if startsWithLinebreak t 2 then DHardline # docs1 else docs1)"
  have "\<exists>R2. docs2 = R2 @ [DText w, DLine]"
  proof (cases "startsWithLinebreak t 2")
    case True
    then have "docs2 = (DHardline # R1) @ [DText w, DLine]" by (simp add: docs2_def r1)
    then show ?thesis by blast
  next
    case False
    then show ?thesis using r1 by (simp add: docs2_def)
  qed
  then obtain R2 where r2: "docs2 = R2 @ [DText w, DLine]" by blast
  have ne2: "docs2 \<noteq> []" using r2 by simp
  have "split_text t = docs2[length docs2 - 1 := DHardline] @ [DHardline]"
    unfolding split_text_def Let_def docs2_def [symmetric] docs1_def [symmetric]
    by (simp only: e1 e2 ne2 if_True if_False)
  also have "\<dots> = R2 @ [DText w, DHardline, DHardline]"
    unfolding r2 list_update_last_snoc2 by simp
  finally show ?thesis using w by blast
qed

lemma split_nl_no_nl: "\<forall>l\<in>set (split_nl s). nl \<notin> set l"
  by (induction s) (auto split: list.splits)

lemma flatten_enumerate_literal:
  "flatten (map (\<lambda>(i, o'). if i = 0 then [DText o'] else [DLiteralline, DText o'])
      (enumerate (Suc n) ls)) = concat (map (\<lambda>o'. [DLiteralline, DText o']) ls)"
  by (induction ls arbitrary: n) (auto simp: flatten_def)

lemma literal_lines_Cons:
  "literal_lines (l # ls) = DText l # concat (map (\<lambda>o'. [DLiteralline, DText o']) ls)"
  by (induction ls arbitrary: l) auto

lemma verbatim_literal_lines:
  "flatten (map (\<lambda>(i, o'). if i = 0 then [DText o'] else [DLiteralline, DText o'])
      (enumerate 0 ls)) = literal_lines ls"
proof (cases ls)
  case Nil
  then show ?thesis by (simp add: flatten_def)
next
  case (Cons l rest)
  have "flatten (map (\<lambda>(i, o'). if i = 0 then [DText o'] else [DLiteralline, DText o'])
      (enumerate 0 (l # rest))) =
    DText l # flatten (map (\<lambda>(i, o'). if i = 0 then [DText o'] else [DLiteralline, DText o'])
      (enumerate (Suc 0) rest))"
    by (simp add: flatten_def)
  with Cons show ?thesis
    by (simp only: flatten_enumerate_literal literal_lines_Cons)
qed

lemma js_slice_in_range:
  assumes "0 \<le> a" "a \<le> b" "b \<le> int (length t)"
  shows "js_slice t a b = take (nat (b - a)) (drop (nat a) t)"
  using assms by (simp add: js_slice_def Let_def min_def)

text \<open>
  Claim C1. While suppression is active (\<^verbatim>\<open>ignoreNext\<close> is set, or \<^verbatim>\<open>ignoreRange\<close> is
  set and the node is not the range-end directive), \<^verbatim>\<open>print\<close> returns for every node
  that is not a whitespace-only \<^verbatim>\<open>Text\<close> a concatenation of pieces with a literal line
  between them, where no piece holds a line feed and the pieces, joined by line feeds,
  are the slice of the source text from the start offset to the end offset of the
  node: for offsets \<open>a \<le> b\<close> within the text, the \<open>b - a\<close> characters that follow the
  first \<open>a\<close>. \<^verbatim>\<open>ignoreNext\<close> is cleared. A whitespace-only \<^verbatim>\<open>Text\<close> is printed by the
  rule for \<^verbatim>\<open>Text\<close> nodes whatever the flags are, and leaves them as they are.
\<close>

theorem suppressed_node_is_printed_verbatim:
  "((ignoreNext s \<or> (ignoreRange s \<and> \<not> isIgnoreEndDirective X node)) \<and> \<not> isEmptyTextNode X node \<longrightarrow>
      (\<exists>pieces.
         print X opts pr (PNode node # up) s =
           (Inr (DConcat (literal_lines pieces)), s\<lparr>ignoreNext := False\<rparr>) \<and>
         (\<forall>l\<in>set pieces. nl \<notin> set l) \<and>
         raw_text (DConcat (literal_lines pieces)) =
           js_slice (originalText opts) (locStart opts node) (locEnd opts node) \<and>
         (0 \<le> locStart opts node \<and> locStart opts node \<le> locEnd opts node \<and>
          locEnd opts node \<le> int (length (originalText opts)) \<longrightarrow>
            raw_text (DConcat (literal_lines pieces)) =
              take (nat (locEnd opts node - locStart opts node))
                (drop (nat (locStart opts node)) (originalText opts))))) \<and>
   (isEmptyTextNode X node \<longrightarrow>
      print X opts pr (PNode node # up) s = (Inr (print_Text X opts (PNode node # up) node), s))"
proof (intro conjI impI)
  let ?slice = "js_slice (originalText opts) (locStart opts node) (locEnd opts node)"
  assume a: "(ignoreNext s \<or> (ignoreRange s \<and> \<not> isIgnoreEndDirective X node)) \<and> \<not> isEmptyTextNode X node"
  then have "suppressed X s node" by (simp add: suppressed_def)
  then have p: "print X opts pr (PNode node # up) s =
        (Inr (print_verbatim opts node), s\<lparr>ignoreNext := False\<rparr>)"
    by (rule print_suppressed)
  have v: "print_verbatim opts node = DConcat (literal_lines (split_nl ?slice))"
    unfolding print_verbatim_def by (simp only: verbatim_literal_lines)
  have r: "raw_text (DConcat (literal_lines (split_nl ?slice))) = ?slice"
    using raw_text_print_verbatim [of opts node] by (simp only: v)
  have i: "0 \<le> locStart opts node \<and> locStart opts node \<le> locEnd opts node \<and>
          locEnd opts node \<le> int (length (originalText opts)) \<longrightarrow>
            raw_text (DConcat (literal_lines (split_nl ?slice))) =
              take (nat (locEnd opts node - locStart opts node))
                (drop (nat (locStart opts node)) (originalText opts))"
  proof
    assume "0 \<le> locStart opts node \<and> locStart opts node \<le> locEnd opts node \<and>
          locEnd opts node \<le> int (length (originalText opts))"
    then have "?slice = take (nat (locEnd opts node - locStart opts node))
                (drop (nat (locStart opts node)) (originalText opts))"
      by (simp only: js_slice_in_range)
    with r show "raw_text (DConcat (literal_lines (split_nl ?slice))) =
              take (nat (locEnd opts node - locStart opts node))
                (drop (nat (locStart opts node)) (originalText opts))"
      by (simp only:)
  qed
  show "\<exists>pieces.
         print X opts pr (PNode node # up) s =
           (Inr (DConcat (literal_lines pieces)), s\<lparr>ignoreNext := False\<rparr>) \<and>
         (\<forall>l\<in>set pieces. nl \<notin> set l) \<and>
         raw_text (DConcat (literal_lines pieces)) = ?slice \<and>
         (0 \<le> locStart opts node \<and> locStart opts node \<le> locEnd opts node \<and>
          locEnd opts node \<le> int (length (originalText opts)) \<longrightarrow>
            raw_text (DConcat (literal_lines pieces)) =
              take (nat (locEnd opts node - locStart opts node))
                (drop (nat (locStart opts node)) (originalText opts)))"
  proof (intro exI [of _ "split_nl ?slice"] conjI)
    from p show "print X opts pr (PNode node # up) s =
        (Inr (DConcat (literal_lines (split_nl ?slice))), s\<lparr>ignoreNext := False\<rparr>)"
      by (simp only: v)
  qed (rule split_nl_no_nl, rule r, rule i)
next
  assume e: "isEmptyTextNode X node"
  then have ns: "\<not> suppressed X s node"
    by (simp add: suppressed_def isEmptyTextNode_type)
  from e obtain raw data where "kind node = Text raw data"
    by (auto simp: isEmptyTextNode_def is_Text_def split: nkind.splits)
  with ns show "print X opts pr (PNode node # up) s = (Inr (print_Text X opts (PNode node # up) node), s)"
    by (simp add: print_def bnd_get_state ret_apply)
qed

theorem suppressed_node_is_printed_verbatim_witness:
  "print sample_helpers (sample_options sample_source False True ''none'')
     (sample_print (sample_options sample_source False True ''none'')) [PNode sample_element]
     \<lparr>ignoreNext = False, ignoreRange = True, svelteOptionsDoc = None\<rparr> =
     (Inr (DConcat [DText ''<div>x'', DLiteralline, DText ''y</div>'']),
      \<lparr>ignoreNext = False, ignoreRange = True, svelteOptionsDoc = None\<rparr>) \<and>
   raw_text (DConcat [DText ''<div>x'', DLiteralline, DText ''y</div>'']) =
     take 14 (drop 11 sample_source) \<and>
   take 14 (drop 11 sample_source) = ''<div>x'' @ [nl] @ ''y</div>'' \<and>
   print sample_helpers (sample_options sample_source False True ''none'')
     (sample_print (sample_options sample_source False True ''none'')) [PNode sample_blank]
     \<lparr>ignoreNext = False, ignoreRange = True, svelteOptionsDoc = None\<rparr> =
     (Inr DHardline, \<lparr>ignoreNext = False, ignoreRange = True, svelteOptionsDoc = None\<rparr>)"
proof -
  let ?s = "\<lparr>ignoreNext = False, ignoreRange = True, svelteOptionsDoc = None\<rparr>"
  let ?o = "sample_options sample_source False True ''none''"
  let ?d = "DConcat [DText ''<div>x'', DLiteralline, DText ''y</div>'']"
  have range: "0 \<le> locStart ?o sample_element \<and> locStart ?o sample_element \<le> locEnd ?o sample_element \<and>
      locEnd ?o sample_element \<le> int (length (originalText ?o))"
    by (simp add: sample_options_def sample_source_def sample_element_def)
  have offs: "nat (locEnd ?o sample_element - locStart ?o sample_element) = 14"
    "nat (locStart ?o sample_element) = 11" "originalText ?o = sample_source"
    by (simp_all add: sample_options_def sample_element_def)
  have h1: "(ignoreNext ?s \<or> (ignoreRange ?s \<and> \<not> isIgnoreEndDirective sample_helpers sample_element)) \<and>
      \<not> isEmptyTextNode sample_helpers sample_element"
    by (simp add: comment_is_def sample_element_def isEmptyTextNode_def is_Text_def)
  have h2: "isEmptyTextNode sample_helpers sample_blank"
    by (simp add: isEmptyTextNode_def is_Text_def sample_blank_def text_of_def js_trim_def is_js_space_def)
  have t: "print_Text sample_helpers ?o [PNode sample_blank] sample_blank = DHardline"
    using h2 by (simp add: print_Text_def element_named_def sample_blank_def text_of_def
        test_nl_def is_js_space_def)
  have u: "?s\<lparr>ignoreNext := False\<rparr> = ?s" by simp
  have sl: "take 14 (drop 11 sample_source) = ''<div>x'' @ [nl] @ ''y</div>''"
    by (simp add: sample_source_def)
  from suppressed_node_is_printed_verbatim [of ?s sample_helpers sample_element ?o "sample_print ?o" "[]"]
    h1 range
  obtain pieces where
    a: "print sample_helpers ?o (sample_print ?o) [PNode sample_element] ?s =
        (Inr (DConcat (literal_lines pieces)), ?s\<lparr>ignoreNext := False\<rparr>)"
    and n: "\<forall>l\<in>set pieces. nl \<notin> set l"
    and b: "raw_text (DConcat (literal_lines pieces)) =
        take (nat (locEnd ?o sample_element - locStart ?o sample_element))
          (drop (nat (locStart ?o sample_element)) (originalText ?o))"
    by blast
  have v: "print sample_helpers ?o (sample_print ?o) [PNode sample_element] ?s = (Inr ?d, ?s)"
    by (simp add: print_def monad_defs suppressed_def comment_is_def node_type_def
        print_verbatim_def sample_options_def sample_source_def sample_element_def
        js_slice_def flatten_def enumerate_eq_zip)
  from a v have d: "DConcat (literal_lines pieces) = ?d" by simp
  from suppressed_node_is_printed_verbatim [of ?s sample_helpers sample_blank ?o "sample_print ?o" "[]"] h2
  have c: "print sample_helpers ?o (sample_print ?o) [PNode sample_blank] ?s =
     (Inr (print_Text sample_helpers ?o [PNode sample_blank] sample_blank), ?s)"
    by blast
  show ?thesis
    using v b c sl unfolding d offs t by simp
qed

lemma nonempty_text_has_word:
  assumes "is_Text node" "\<not> isEmptyTextNode X node"
  shows "\<exists>x\<in>set (getUnencodedText X node). \<not> is_sep x"
proof -
  from assms have "js_trim (getUnencodedText X node) \<noteq> []" by (simp add: isEmptyTextNode_def)
  then obtain c where "c \<in> set (getUnencodedText X node)" "\<not> is_js_space c"
    using js_trim_Nil_iff by blast
  then show ?thesis using sep_js_space by blast
qed

text \<open>
  Claim C2. For a \<^verbatim>\<open>Text\<close> node outside the content of a \<^verbatim>\<open>pre\<close> tag: when it is
  whitespace-only, \<^verbatim>\<open>print\<close> returns two hard lines when its text holds two or more
  line feeds, one hard line when it holds exactly one, a line when it holds white space
  but no line feed, and the empty string when the text is empty. When it is not
  whitespace-only (and not suppressed), \<^verbatim>\<open>print\<close> returns the fill of
  \<^verbatim>\<open>splitTextToDocs\<close>, and \<open>k \<ge> 2\<close> newline sequences at the start of the text give
  exactly two hard lines followed by the first word, \<open>k \<ge> 2\<close> at its end the last word
  followed by exactly two hard lines, whatever \<open>k\<close> is.
\<close>

theorem text_node_blank_lines:
  assumes "kind node = Text raw data" and "\<not> isPreTagContent X (PNode node # up)"
  shows
    "(isEmptyTextNode X node \<longrightarrow>
        print X opts pr (PNode node # up) s =
          (Inr (if 2 \<le> count_list (getUnencodedText X node) nl then DConcat [DHardline, DHardline]
                else if count_list (getUnencodedText X node) nl = 1 then DHardline
                else if getUnencodedText X node \<noteq> [] then DLine
                else DText []), s)) \<and>
     (\<not> isEmptyTextNode X node \<and> \<not> suppressed X s node \<longrightarrow>
        print X opts pr (PNode node # up) s = (Inr (DFill (splitTextToDocs X node)), s) \<and>
        (\<forall>k. 2 \<le> k \<and> startsWithLinebreak (getUnencodedText X node) k \<longrightarrow>
           (\<exists>w rest. w \<noteq> [] \<and>
              splitTextToDocs X node = DHardline # DHardline # DText w # rest)) \<and>
        (\<forall>k. 2 \<le> k \<and> endsWithLinebreak (getUnencodedText X node) k \<longrightarrow>
           (\<exists>front w. w \<noteq> [] \<and>
              splitTextToDocs X node = front @ [DText w, DHardline, DHardline])))"
proof (intro conjI impI allI)
  assume e: "isEmptyTextNode X node"
  then have ns: "\<not> suppressed X s node"
    by (simp add: suppressed_def isEmptyTextNode_type)
  with assms(1) have "print X opts pr (PNode node # up) s = (Inr (print_Text X opts (PNode node # up) node), s)"
    by (simp add: print_def bnd_get_state ret_apply)
  with print_Text_empty [OF assms(2) e, of opts]
  show "print X opts pr (PNode node # up) s =
          (Inr (if 2 \<le> count_list (getUnencodedText X node) nl then DConcat [DHardline, DHardline]
                else if count_list (getUnencodedText X node) nl = 1 then DHardline
                else if getUnencodedText X node \<noteq> [] then DLine
                else DText []), s)"
    by (simp add: Let_def)
next
  assume a: "\<not> isEmptyTextNode X node \<and> \<not> suppressed X s node"
  with assms show "print X opts pr (PNode node # up) s = (Inr (DFill (splitTextToDocs X node)), s)"
    by (simp add: print_def bnd_get_state ret_apply print_Text_def)
next
  fix k
  assume a: "\<not> isEmptyTextNode X node \<and> \<not> suppressed X s node"
    and k: "2 \<le> k \<and> startsWithLinebreak (getUnencodedText X node) k"
  from assms(1) have "is_Text node" by (simp add: is_Text_def)
  from nonempty_text_has_word [OF this] a have w: "\<exists>x\<in>set (getUnencodedText X node). \<not> is_sep x"
    by blast
  from split_text_leading [OF _ _ w, of k] k
  show "\<exists>w rest. w \<noteq> [] \<and> splitTextToDocs X node = DHardline # DHardline # DText w # rest"
    by (simp add: splitTextToDocs_split_text)
next
  fix k
  assume a: "\<not> isEmptyTextNode X node \<and> \<not> suppressed X s node"
    and k: "2 \<le> k \<and> endsWithLinebreak (getUnencodedText X node) k"
  from assms(1) have "is_Text node" by (simp add: is_Text_def)
  from nonempty_text_has_word [OF this] a have w: "\<exists>x\<in>set (getUnencodedText X node). \<not> is_sep x"
    by blast
  from split_text_trailing [OF _ _ w, of k] k
  show "\<exists>front w. w \<noteq> [] \<and> splitTextToDocs X node = front @ [DText w, DHardline, DHardline]"
    by (simp add: splitTextToDocs_split_text)
qed

theorem text_node_blank_lines_witness:
  "print sample_helpers (sample_options [] False True ''none'') (sample_print (sample_options [] False True ''none''))
     [PNode sample_blank3] \<lparr>ignoreNext = False, ignoreRange = True, svelteOptionsDoc = None\<rparr> =
     (Inr (DConcat [DHardline, DHardline]), \<lparr>ignoreNext = False, ignoreRange = True, svelteOptionsDoc = None\<rparr>) \<and>
   print sample_helpers (sample_options [] False True ''none'') (sample_print (sample_options [] False True ''none''))
     [PNode sample_words] initial_state =
     (Inr (DFill [DHardline, DHardline, DText ''foo'', DLine, DText ''bar'', DHardline, DHardline]),
      initial_state) \<and>
   (\<exists>w rest. w \<noteq> [] \<and>
      splitTextToDocs sample_helpers sample_words = DHardline # DHardline # DText w # rest) \<and>
   (\<exists>front w. w \<noteq> [] \<and>
      splitTextToDocs sample_helpers sample_words = front @ [DText w, DHardline, DHardline])"
proof -
  let ?o = "sample_options [] False True ''none''"
  let ?s = "\<lparr>ignoreNext = False, ignoreRange = True, svelteOptionsDoc = None\<rparr>"
  have pre: "\<not> isPreTagContent sample_helpers [PNode sample_blank3]"
    "\<not> isPreTagContent sample_helpers [PNode sample_words]"
    by (simp_all add: element_named_def sample_blank3_def sample_words_def)
  have k1: "kind sample_blank3 = Text [nl, CHR 0x0D, nl, CHR '' '', nl] [nl, CHR 0x0D, nl, CHR '' '', nl]"
    by (simp add: sample_blank3_def)
  have k2: "kind sample_words = Text ([nl, nl, nl] @ ''foo  bar'' @ [nl, CHR '' '', nl, nl])
                ([nl, nl, nl] @ ''foo  bar'' @ [nl, CHR '' '', nl, nl])"
    by (simp add: sample_words_def)
  have e1: "isEmptyTextNode sample_helpers sample_blank3"
    by (simp add: isEmptyTextNode_def is_Text_def sample_blank3_def text_of_def js_trim_def is_js_space_def)
  have e2: "\<not> isEmptyTextNode sample_helpers sample_words \<and> \<not> suppressed sample_helpers initial_state sample_words"
    by (simp add: isEmptyTextNode_def is_Text_def sample_words_def text_of_def js_trim_def
        is_js_space_def suppressed_def initial_state_def)
  have c1: "(if 2 \<le> count_list (getUnencodedText sample_helpers sample_blank3) nl then DConcat [DHardline, DHardline]
                else if count_list (getUnencodedText sample_helpers sample_blank3) nl = 1 then DHardline
                else if getUnencodedText sample_helpers sample_blank3 \<noteq> [] then DLine
                else DText []) = DConcat [DHardline, DHardline]"
    by (simp add: sample_blank3_def text_of_def)
  have d: "splitTextToDocs sample_helpers sample_words =
      [DHardline, DHardline, DText ''foo'', DLine, DText ''bar'', DHardline, DHardline]"
    by (simp add: splitTextToDocs_def sample_words_def text_of_def is_sep_def is_blank_def
        endsWithLinebreak_def eval_nat_numeral)
  have s3: "2 \<le> (3::nat) \<and> startsWithLinebreak (getUnencodedText sample_helpers sample_words) 3"
    by (simp add: sample_words_def text_of_def is_blank_def eval_nat_numeral)
  have s4: "2 \<le> (3::nat) \<and> endsWithLinebreak (getUnencodedText sample_helpers sample_words) 3"
    by (simp add: sample_words_def text_of_def is_blank_def eval_nat_numeral endsWithLinebreak_def)
  from text_node_blank_lines [OF k1 pre(1), where opts = ?o and pr = "sample_print ?o" and s = ?s] e1
  have a: "print sample_helpers ?o (sample_print ?o) [PNode sample_blank3] ?s =
     (Inr (DConcat [DHardline, DHardline]), ?s)"
    unfolding c1 by blast
  from text_node_blank_lines [OF k2 pre(2), where opts = ?o and pr = "sample_print ?o" and s = initial_state] e2
  have b: "print sample_helpers ?o (sample_print ?o) [PNode sample_words] initial_state =
       (Inr (DFill (splitTextToDocs sample_helpers sample_words)), initial_state)"
    and l: "\<forall>k. 2 \<le> k \<and> startsWithLinebreak (getUnencodedText sample_helpers sample_words) k \<longrightarrow>
           (\<exists>w rest. w \<noteq> [] \<and>
              splitTextToDocs sample_helpers sample_words = DHardline # DHardline # DText w # rest)"
    and t: "\<forall>k. 2 \<le> k \<and> endsWithLinebreak (getUnencodedText sample_helpers sample_words) k \<longrightarrow>
           (\<exists>front w. w \<noteq> [] \<and>
              splitTextToDocs sample_helpers sample_words = front @ [DText w, DHardline, DHardline])"
    by blast+
  from l s3 have l': "\<exists>w rest. w \<noteq> [] \<and>
      splitTextToDocs sample_helpers sample_words = DHardline # DHardline # DText w # rest" by blast
  from t s4 have t': "\<exists>front w. w \<noteq> [] \<and>
      splitTextToDocs sample_helpers sample_words = front @ [DText w, DHardline, DHardline]" by blast
  from a b l' t' show ?thesis unfolding d by blast
qed

lemma bnd_assoc: "bnd (bnd m f) g = bnd m (\<lambda>x. bnd (f x) g)"
  by (auto simp: bnd_def fun_eq_iff split: prod.splits sum.splits)

lemma bnd_lift_Inr [simp]: "bnd (lift (Inr x)) f = f x"
  by (simp add: bnd_def lift_def)


lemma print_node:
  "print X opts pr (PNode node # up) s =
     (if suppressed X s node then (Inr (print_verbatim opts node), s\<lparr>ignoreNext := False\<rparr>)
      else print X opts pr (PNode node # up) s)"
  by (simp add: print_suppressed)

lemma raw_text_selfClosingTag:
  "raw_text (selfClosingTag X opts name ds) =
     ''<'' @ name @ concat (map raw_text ds) @ (if isBracketSameLine X opts then '' '' else [nl]) @ ''/>''"
  by (simp add: selfClosingTag_def groupConcat_def)

text \<open>
  Claim C10. When \<^verbatim>\<open>print\<close> dispatches on an \<^verbatim>\<open>Options\<close> node (the node is not
  suppressed) and the sort order is not \<^verbatim>\<open>none\<close>, it throws at once: no callback
  runs and the globals are as they were. When the sort order is \<^verbatim>\<open>none\<close>, it prints
  the attributes and returns the tag that closes itself, \<^verbatim>\<open><name ... />\<close>; it throws
  only what the printing of an attribute throws.
\<close>

theorem options_node_throws_unless_unsorted:
  assumes "kind node = Options name attrs" and "\<not> suppressed X s node"
  shows
    "(svelteSortOrder opts \<noteq> ''none'' \<longrightarrow>
        print X opts pr (PNode node # up) s =
          (Inl (Error ''Options tags should have been handled by prepareChildren''), s)) \<and>
     (svelteSortOrder opts = ''none'' \<longrightarrow>
        print X opts pr (PNode node # up) s =
          (case path_map (printWithPrependedAttributeLine X node opts pr) (PNode node # up) attrs s of
             (Inl e, s') \<Rightarrow> (Inl e, s')
           | (Inr ds, s') \<Rightarrow> (Inr (selfClosingTag X opts name ds), s')) \<and>
        (\<forall>ds. raw_text (selfClosingTag X opts name ds) =
           ''<'' @ name @ concat (map raw_text ds) @
           (if isBracketSameLine X opts then '' '' else [nl]) @ ''/>''))"
proof -
  have "print X opts pr (PNode node # up) s =
      (if svelteSortOrder opts \<noteq> ''none''
       then throw (Error ''Options tags should have been handled by prepareChildren'')
       else bnd (path_map (printWithPrependedAttributeLine X node opts pr) (PNode node # up) attrs)
              (\<lambda>ds. ret (selfClosingTag X opts name ds))) s"
    using assms by (simp add: print_def bnd_get_state)
  then show ?thesis
    by (auto simp: throw_apply bnd_apply ret_apply raw_text_selfClosingTag
        split: prod.splits sum.splits)
qed

lemma sample_print_Suc: "sample_print opts = print sample_helpers opts (mainPrint sample_helpers opts 7)"
  by (simp add: sample_print_def eval_nat_numeral)

theorem options_node_throws_unless_unsorted_witness:
  "print sample_helpers (sample_options [] False True ''options-scripts-markup-styles'')
     (sample_print (sample_options [] False True ''options-scripts-markup-styles''))
     [PNode sample_options_node] initial_state =
     (Inl (Error ''Options tags should have been handled by prepareChildren''), initial_state) \<and>
   print sample_helpers (sample_options [] False True ''none'')
     (sample_print (sample_options [] False True ''none''))
     [PNode sample_options_node] initial_state =
     (Inr (selfClosingTag sample_helpers (sample_options [] False True ''none'') ''svelte:options''
            [DConcat [DLine, DConcat [DText ''immutable'']]]), initial_state) \<and>
   raw_text (selfClosingTag sample_helpers (sample_options [] False True ''none'') ''svelte:options''
            [DConcat [DLine, DConcat [DText ''immutable'']]]) =
     ''<svelte:options'' @ [nl] @ ''immutable'' @ [nl] @ ''/>''"
proof -
  let ?o = "sample_options [] False True ''options-scripts-markup-styles''"
  let ?n = "sample_options [] False True ''none''"
  have k: "kind sample_options_node = Options ''svelte:options'' [Node (Attribute ''immutable'' VTrue) 16 25]"
    by (simp add: sample_options_node_def)
  have ns: "\<not> suppressed sample_helpers initial_state sample_options_node"
    by (simp add: suppressed_def initial_state_def)
  have o1: "svelteSortOrder ?o \<noteq> ''none''" and o2: "svelteSortOrder ?n = ''none''"
    by (simp_all add: sample_options_def)
  have pm: "path_map (printWithPrependedAttributeLine sample_helpers sample_options_node ?n (sample_print ?n))
      [PNode sample_options_node] [Node (Attribute ''immutable'' VTrue) 16 25] initial_state =
      (Inr [DConcat [DLine, DConcat [DText ''immutable'']]], initial_state)"
    by (simp add: path_map_def sample_print_Suc print_def monad_defs suppressed_def
        initial_state_def print_Attribute_def isOrCanBeConvertedToShorthand_def node_type_def)
  from options_node_throws_unless_unsorted [OF k ns, where opts = ?o and pr = "sample_print ?o" and up = "[]"] o1
  have a: "print sample_helpers ?o (sample_print ?o) [PNode sample_options_node] initial_state =
     (Inl (Error ''Options tags should have been handled by prepareChildren''), initial_state)"
    by blast
  from options_node_throws_unless_unsorted [OF k ns, where opts = ?n and pr = "sample_print ?n" and up = "[]"] o2
  have b: "print sample_helpers ?n (sample_print ?n) [PNode sample_options_node] initial_state =
          (case path_map (printWithPrependedAttributeLine sample_helpers sample_options_node ?n (sample_print ?n))
                  [PNode sample_options_node] [Node (Attribute ''immutable'' VTrue) 16 25] initial_state of
             (Inl e, s') \<Rightarrow> (Inl e, s')
           | (Inr ds, s') \<Rightarrow> (Inr (selfClosingTag sample_helpers ?n ''svelte:options'' ds), s'))"
    and c: "\<forall>ds. raw_text (selfClosingTag sample_helpers ?n ''svelte:options'' ds) =
           ''<'' @ ''svelte:options'' @ concat (map raw_text ds) @
           (if isBracketSameLine sample_helpers ?n then '' '' else [nl]) @ ''/>''"
    by blast+
  from c have c': "raw_text (selfClosingTag sample_helpers ?n ''svelte:options'' [DConcat [DLine, DConcat [DText ''immutable'']]]) =
     ''<svelte:options'' @ [nl] @ ''immutable'' @ [nl] @ ''/>''"
    by simp
  from a b c' show ?thesis unfolding pm by simp
qed

text \<open>
  Claim C6. For an \<^verbatim>\<open>Attribute\<close> whose value is a lone mustache tag over the
  identifier that is the attribute's name (\<^verbatim>\<open>foo={foo}\<close>), \<^verbatim>\<open>print\<close> (the node not
  suppressed) calls no callback, leaves the globals as they are and returns a document
  whose text is \<^verbatim>\<open>foo="{foo}"\<close> in strict mode, \<^verbatim>\<open>{foo}\<close> when strict mode is off and
  the shorthand is allowed, and \<^verbatim>\<open>foo={foo}\<close> when both are off.
\<close>

theorem attribute_shorthand_forms:
  assumes \<open>kind node =
      Attribute name (VNodes [Node (MustacheTag (Node (JS (Identifier name) f) s1 e1)) s2 e2])\<close>
    and \<open>\<not> suppressed X s node\<close>
  shows \<open>\<exists>d. print X opts pr (PNode node # up) s = (Inr d, s) \<and>
     raw_text d =
       (if svelteStrictMode opts then name @ ''="{'' @ name @ ''}"''
        else if svelteAllowShorthand opts then ''{'' @ name @ ''}''
        else name @ ''={'' @ name @ ''}'')\<close>
proof -
  have sh: "isOrCanBeConvertedToShorthand name
      (VNodes [Node (MustacheTag (Node (JS (Identifier name) f) s1 e1)) s2 e2])"
    by (simp add: isOrCanBeConvertedToShorthand_def is_identifier_named_def)
  have "print X opts pr (PNode node # up) s =
      print_Attribute X opts pr (PNode node # up) name
        (VNodes [Node (MustacheTag (Node (JS (Identifier name) f) s1 e1)) s2 e2]) s"
    using assms by (simp add: print_def bnd_get_state)
  then show ?thesis
    using sh by (simp add: print_Attribute_def ret_apply)
qed

theorem attribute_shorthand_forms_witness:
  \<open>(\<exists>d. print sample_helpers (sample_options ''foo={foo}'' True True ''none'')
          (sample_print (sample_options ''foo={foo}'' True True ''none''))
          [PNode sample_attribute] initial_state = (Inr d, initial_state) \<and>
        raw_text d = ''foo="{foo}"'') \<and>
   (\<exists>d. print sample_helpers (sample_options ''foo={foo}'' False True ''none'')
          (sample_print (sample_options ''foo={foo}'' False True ''none''))
          [PNode sample_attribute] initial_state = (Inr d, initial_state) \<and>
        raw_text d = ''{foo}'') \<and>
   (\<exists>d. print sample_helpers (sample_options ''foo={foo}'' False False ''none'')
          (sample_print (sample_options ''foo={foo}'' False False ''none''))
          [PNode sample_attribute] initial_state = (Inr d, initial_state) \<and>
        raw_text d = ''foo={foo}'')\<close>
proof -
  have k: "kind sample_attribute =
      Attribute ''foo'' (VNodes [Node (MustacheTag (Node (JS (Identifier ''foo'') None) 5 8)) 4 9])"
    by (simp add: sample_attribute_def)
  have ns: "\<not> suppressed sample_helpers initial_state sample_attribute"
    by (simp add: suppressed_def initial_state_def)
  show ?thesis
    using attribute_shorthand_forms [OF k ns,
        where opts = "sample_options ''foo={foo}'' True True ''none''"
          and pr = "sample_print (sample_options ''foo={foo}'' True True ''none'')" and up = "[]"]
      attribute_shorthand_forms [OF k ns,
        where opts = "sample_options ''foo={foo}'' False True ''none''"
          and pr = "sample_print (sample_options ''foo={foo}'' False True ''none'')" and up = "[]"]
      attribute_shorthand_forms [OF k ns,
        where opts = "sample_options ''foo={foo}'' False False ''none''"
          and pr = "sample_print (sample_options ''foo={foo}'' False False ''none'')" and up = "[]"]
    by (simp add: sample_options_def)
qed

lemma isEmptyTextNode_whitespace_only: "isEmptyTextNode X n = whitespace_only X n"
  by (cases n)
     (simp add: isEmptyTextNode_def whitespace_only_def is_Text_def js_trim_Nil_iff
        split: nkind.splits)

lemma hasContent_holds_content: "hasContent X block = holds_content X block"
  by (simp add: hasContent_def holds_content_def children_def list_ex_iff
      isEmptyTextNode_whitespace_only)

lemma print_AwaitBlock_rendering:
  "print_AwaitBlock X opts pr path e v er p t c =
     await_rendering X pr path e v er p t c (hasContent X p) (hasContent X t) (hasContent X c)"
  by (cases "hasContent X p"; cases "hasContent X t"; cases "hasContent X c")
     (simp_all add: print_AwaitBlock_def await_rendering_def await_form_def await_part_def
        await_delimited_def await_short_def Let_def bnd_assoc)

text \<open>
  Claim C4. For an \<^verbatim>\<open>AwaitBlock\<close> (the node not suppressed) the rendering is chosen by
  which of the pending, then and catch blocks hold a child that is not a whitespace-only
  \<^verbatim>\<open>Text\<close>: without pending and with then content, the short form
  \<^verbatim>\<open>{#await expr then v}\<close>; without pending and then content and with catch content,
  the short form \<^verbatim>\<open>{#await expr catch e}\<close>; otherwise the full form. The body of the
  pending block and the delimiters \<^verbatim>\<open>{:then}\<close> and \<^verbatim>\<open>{:catch}\<close> with their bodies
  are there exactly when the block has such content: a pending block that is empty or
  holds white space alone is not rendered.
\<close>

theorem await_block_rendering:
  assumes "kind node = AwaitBlock e v er p t c" and "\<not> suppressed X s node"
  shows "print X opts pr (PNode node # up) s =
           await_rendering X pr (PNode node # up) e v er p t c
             (holds_content X p) (holds_content X t) (holds_content X c) s"
proof -
  have "print X opts pr (PNode node # up) s = print_AwaitBlock X opts pr (PNode node # up) e v er p t c s"
    using assms by (simp add: print_def bnd_get_state)
  then show ?thesis by (simp only: print_AwaitBlock_rendering hasContent_holds_content)
qed

lemmas eval_defs =
  print_def monad_defs suppressed_def initial_state_def printSvelteBlockChildren_def
  printChildren_def prepareChildren_def children_step_def handleTextChild_def
  handleBlockChild_def handleInlineChild_def printChild_def
  print_Text_def splitTextToDocs_def path_call_def path_map_def printSvelteBlockJS_def
  printJS_def set_jsflags_def children_def set_children_def isEmptyTextNode_def is_Text_def
  node_type_def text_of_def js_trim_def is_js_space_def is_sep_def is_blank_def
  element_named_def Let_def groupConcat_def sample_whitespace_def endsWithLinebreak_def
  print_IfBlock_def print_ElseBlock_def print_Comment_def printComment_def print_Fragment_def
  is_IfBlock_def is_EachBlock_def is_Options_def on_path_def comment_is_def
  isCommentFollowedByOptions_def printJsExpression_def printOptionalExpression_def
  printModifiers_def join_def is_identifier_named_def hasContent_def

lemmas await_defs =
  await_rendering_def await_form_def await_part_def await_short_def await_delimited_def
  holds_content_def whitespace_only_def

lemma sample_await_eval:
  "await_rendering sample_helpers (sample_print (sample_options [] False True ''none''))
     [PNode sample_await] (Node (JS (Identifier ''p'') None) 8 9)
             (Some (Node (JS (Identifier ''v'') None) 20 21)) None
             (Node (PendingBlock [Node (Text [nl, CHR '' '', CHR '' ''] [nl, CHR '' '', CHR '' ''])
                                    10 13]) 10 13)
             (Node (ThenBlock [Node (Text ''A'' ''A'') 22 23]) 13 23)
             (Node (CatchBlock []) 23 23)
     (holds_content sample_helpers
        (Node (PendingBlock [Node (Text [nl, CHR '' '', CHR '' ''] [nl, CHR '' '', CHR '' ''])
                               10 13]) 10 13))
     (holds_content sample_helpers (Node (ThenBlock [Node (Text ''A'' ''A'') 22 23]) 13 23))
     (holds_content sample_helpers (Node (CatchBlock []) 23 23)) initial_state =
   (Inr (DGroup (DConcat
      [DGroup (DConcat [DText ''{#await '', DText ''p'', DText '' then'', DText '' v'', DText ''}'']),
       DConcat [DIndent (DConcat [DText [], DGroup (DConcat [DFill [DText ''A'']])]), DText []],
       DText ''{/await}''])), initial_state)"
  by (simp add: await_defs sample_print_def eval_nat_numeral eval_defs sample_await_def)

lemma sample_await_full_eval:
  "await_rendering sample_helpers (sample_print (sample_options [] False True ''none''))
     [PNode sample_await_full] (Node (JS (Identifier ''p'') None) 8 9)
             (Some (Node (JS (Identifier ''v'') None) 18 19))
             (Some (Node (JS (Identifier ''e'') None) 29 30))
             (Node (PendingBlock [Node (Text ''W'' ''W'') 10 11]) 10 11)
             (Node (ThenBlock [Node (Text ''A'' ''A'') 20 21]) 11 21)
             (Node (CatchBlock [Node (Text ''E'' ''E'') 31 32]) 21 32)
     (holds_content sample_helpers (Node (PendingBlock [Node (Text ''W'' ''W'') 10 11]) 10 11))
     (holds_content sample_helpers (Node (ThenBlock [Node (Text ''A'' ''A'') 20 21]) 11 21))
     (holds_content sample_helpers (Node (CatchBlock [Node (Text ''E'' ''E'') 31 32]) 21 32))
     initial_state =
   (Inr (DGroup (DConcat
      [DGroup (DConcat [DText ''{#await '', DText ''p'', DText ''}'']),
       DConcat [DIndent (DConcat [DText [], DGroup (DConcat [DFill [DText ''W'']])]), DText []],
       DGroup (DConcat [DText ''{:then'', DText '' v'', DText ''}'']),
       DConcat [DIndent (DConcat [DText [], DGroup (DConcat [DFill [DText ''A'']])]), DText []],
       DGroup (DConcat [DText ''{:catch'', DText '' e'', DText ''}'']),
       DConcat [DIndent (DConcat [DText [], DGroup (DConcat [DFill [DText ''E'']])]), DText []],
       DText ''{/await}''])), initial_state)"
  by (simp add: await_defs sample_print_def eval_nat_numeral eval_defs sample_await_full_def)

lemma sample_await_catch_eval:
  "await_rendering sample_helpers (sample_print (sample_options [] False True ''none''))
     [PNode sample_await_catch] (Node (JS (Identifier ''p'') None) 8 9) None
             (Some (Node (JS (Identifier ''e'') None) 16 17))
             (Node (PendingBlock []) 9 9)
             (Node (ThenBlock []) 9 9)
             (Node (CatchBlock [Node (Text ''E'' ''E'') 18 19]) 9 19)
     (holds_content sample_helpers (Node (PendingBlock []) 9 9))
     (holds_content sample_helpers (Node (ThenBlock []) 9 9))
     (holds_content sample_helpers (Node (CatchBlock [Node (Text ''E'' ''E'') 18 19]) 9 19))
     initial_state =
   (Inr (DGroup (DConcat
      [DGroup (DConcat [DText ''{#await '', DText ''p'', DText '' catch'', DText '' e'', DText ''}'']),
       DConcat [DIndent (DConcat [DText [], DGroup (DConcat [DFill [DText ''E'']])]), DText []],
       DText ''{/await}''])), initial_state)"
  by (simp add: await_defs sample_print_def eval_nat_numeral eval_defs sample_await_catch_def)

theorem await_block_rendering_witness:
  "(\<exists>d. print sample_helpers (sample_options [] False True ''none'')
          (sample_print (sample_options [] False True ''none'')) [PNode sample_await] initial_state =
          (Inr d, initial_state) \<and>
        raw_text d = ''{#await p then v}A{/await}'') \<and>
   (\<exists>d. print sample_helpers (sample_options [] False True ''none'')
          (sample_print (sample_options [] False True ''none'')) [PNode sample_await_full] initial_state =
          (Inr d, initial_state) \<and>
        raw_text d = ''{#await p}W{:then v}A{:catch e}E{/await}'') \<and>
   (\<exists>d. print sample_helpers (sample_options [] False True ''none'')
          (sample_print (sample_options [] False True ''none'')) [PNode sample_await_catch] initial_state =
          (Inr d, initial_state) \<and>
        raw_text d = ''{#await p catch e}E{/await}'')"
proof -
  have k: "kind sample_await = AwaitBlock (Node (JS (Identifier ''p'') None) 8 9)
             (Some (Node (JS (Identifier ''v'') None) 20 21)) None
             (Node (PendingBlock [Node (Text [nl, CHR '' '', CHR '' ''] [nl, CHR '' '', CHR '' ''])
                                    10 13]) 10 13)
             (Node (ThenBlock [Node (Text ''A'' ''A'') 22 23]) 13 23)
             (Node (CatchBlock []) 23 23)"
    by (simp add: sample_await_def)
  have k': "kind sample_await_full = AwaitBlock (Node (JS (Identifier ''p'') None) 8 9)
             (Some (Node (JS (Identifier ''v'') None) 18 19))
             (Some (Node (JS (Identifier ''e'') None) 29 30))
             (Node (PendingBlock [Node (Text ''W'' ''W'') 10 11]) 10 11)
             (Node (ThenBlock [Node (Text ''A'' ''A'') 20 21]) 11 21)
             (Node (CatchBlock [Node (Text ''E'' ''E'') 31 32]) 21 32)"
    by (simp add: sample_await_full_def)
  have k'': "kind sample_await_catch = AwaitBlock (Node (JS (Identifier ''p'') None) 8 9) None
             (Some (Node (JS (Identifier ''e'') None) 16 17))
             (Node (PendingBlock []) 9 9)
             (Node (ThenBlock []) 9 9)
             (Node (CatchBlock [Node (Text ''E'' ''E'') 18 19]) 9 19)"
    by (simp add: sample_await_catch_def)
  have ns: "\<not> suppressed sample_helpers initial_state sample_await"
    "\<not> suppressed sample_helpers initial_state sample_await_full"
    "\<not> suppressed sample_helpers initial_state sample_await_catch"
    by (simp_all add: suppressed_def initial_state_def)
  show ?thesis
    using await_block_rendering [OF k ns(1), where opts = "sample_options [] False True ''none''"
        and pr = "sample_print (sample_options [] False True ''none'')" and up = "[]"]
      await_block_rendering [OF k' ns(2), where opts = "sample_options [] False True ''none''"
        and pr = "sample_print (sample_options [] False True ''none'')" and up = "[]"]
      await_block_rendering [OF k'' ns(3), where opts = "sample_options [] False True ''none''"
        and pr = "sample_print (sample_options [] False True ''none'')" and up = "[]"]
    unfolding sample_await_eval sample_await_full_eval sample_await_catch_eval by simp
qed

lemma mapM_single: "mapM f [x] = bnd (f x) (\<lambda>y. ret [y])"
  by simp

text \<open>
  Claim C5. For an \<^verbatim>\<open>ElseBlock\<close> whose children are exactly one \<^verbatim>\<open>IfBlock\<close> (the node
  not suppressed): when its parent is not an \<^verbatim>\<open>EachBlock\<close>, \<^verbatim>\<open>print\<close> returns the
  chained form, \<^verbatim>\<open>{:else if condition}\<close> followed by the children of that if-block and,
  when the if-block has one, its own else block, with no \<^verbatim>\<open>{:else}\<close>, \<^verbatim>\<open>{#if}\<close> or
  \<^verbatim>\<open>{/if}\<close> of its own; when the parent is an \<^verbatim>\<open>EachBlock\<close>, it returns \<^verbatim>\<open>{:else}\<close>
  followed by its children, among which the callback prints the if-block as a block.
\<close>

theorem else_block_chaining:
  assumes "kind node = ElseBlock [c]" and "kind c = IfBlock condition ifChildren ifElse"
    and "\<not> suppressed X s node" and "getParentNode (PNode node # up) = Some parent"
  shows
    "(\<not> is_EachBlock parent \<longrightarrow>
        print X opts pr (PNode node # up) s =
          else_if_chain X opts pr (PNode node # up) c condition ifElse s) \<and>
     (is_EachBlock parent \<longrightarrow>
        print X opts pr (PNode node # up) s = else_nested X opts pr node up s)"
proof -
  have p: "print X opts pr (PNode node # up) s = print_ElseBlock X opts pr node up s"
    using assms(1,3) by (simp add: print_def bnd_get_state)
  have ch: "children node = [c]" using assms(1) by (simp add: children_def)
  show ?thesis
  proof (intro conjI impI)
    assume "\<not> is_EachBlock parent"
    then have "print_ElseBlock X opts pr node up = else_if_chain X opts pr (PNode node # up) c condition ifElse"
      using assms(2,4) ch
      by (cases ifElse)
         (simp_all add: print_ElseBlock_def else_if_chain_def Let_def path_map_def on_path_def
            path_call_def bnd_assoc split_def)
    with p show "print X opts pr (PNode node # up) s =
          else_if_chain X opts pr (PNode node # up) c condition ifElse s" by simp
  next
    assume "is_EachBlock parent"
    then have "print_ElseBlock X opts pr node up = else_nested X opts pr node up"
      using assms(2,4) ch
      by (simp add: print_ElseBlock_def else_nested_def Let_def)
    with p show "print X opts pr (PNode node # up) s = else_nested X opts pr node up s" by simp
  qed
qed

lemma sample_chain_eval:
  "else_if_chain sample_helpers (sample_options [] False True ''none'')
     (sample_print (sample_options [] False True ''none''))
     [PNode sample_else, PNode sample_outer_if] sample_inner_if
     (Node (JS (Identifier ''y'') None) 18 19) None initial_state =
   (Inr (DConcat [DText ''{:else if '', DText ''y'', DText ''}'',
           DConcat [DIndent (DConcat [DText [], DGroup (DConcat [DFill [DText ''B'']])]), DText []]]),
    initial_state)"
  by (simp add: else_if_chain_def sample_print_def eval_nat_numeral eval_defs sample_inner_if_def
      sample_else_def sample_outer_if_def)

lemma sample_nested_eval:
  "else_nested sample_helpers (sample_options [] False True ''none'')
     (sample_print (sample_options [] False True ''none''))
     sample_else [PNode sample_each] initial_state =
   (Inr (DConcat [DText ''{:else}'',
      DConcat [DIndent (DConcat [DText [],
        DGroup (DConcat [DConcat [DGroup (DConcat [DText ''{#if '', DText ''y'', DText ''}'',
           DConcat [DIndent (DConcat [DText [], DGroup (DConcat [DFill [DText ''B'']])]), DText []],
           DText ''{/if}'']), DBreakParent]])]), DText []]]),
    initial_state)"
  by (simp add: else_nested_def sample_print_def eval_nat_numeral eval_defs sample_inner_if_def
      sample_else_def sample_each_def)

theorem else_block_chaining_witness:
  "(\<exists>d. print sample_helpers (sample_options [] False True ''none'')
          (sample_print (sample_options [] False True ''none''))
          [PNode sample_else, PNode sample_outer_if] initial_state = (Inr d, initial_state) \<and>
        raw_text d = ''{:else if y}B'') \<and>
   (\<exists>d. print sample_helpers (sample_options [] False True ''none'')
          (sample_print (sample_options [] False True ''none''))
          [PNode sample_else, PNode sample_each] initial_state = (Inr d, initial_state) \<and>
        raw_text d = ''{:else}{#if y}B{/if}'')"
proof -
  have k: "kind sample_else = ElseBlock [sample_inner_if]"
    by (simp add: sample_else_def)
  have kc: "kind sample_inner_if =
      IfBlock (Node (JS (Identifier ''y'') None) 18 19) [Node (Text ''B'' ''B'') 20 21] None"
    by (simp add: sample_inner_if_def)
  have ns: "\<not> suppressed sample_helpers initial_state sample_else"
    by (simp add: suppressed_def initial_state_def)
  have p1: "getParentNode [PNode sample_else, PNode sample_outer_if] =
      Some (PNode sample_outer_if)"
    and p2: "getParentNode [PNode sample_else, PNode sample_each] = Some (PNode sample_each)"
    by simp_all
  have e1: "\<not> is_EachBlock (PNode sample_outer_if)" and e2: "is_EachBlock (PNode sample_each)"
    by (simp_all add: is_EachBlock_def sample_outer_if_def sample_each_def)
  show ?thesis
    using else_block_chaining [OF k kc ns p1, where opts = "sample_options [] False True ''none''"
        and pr = "sample_print (sample_options [] False True ''none'')"] e1
      else_block_chaining [OF k kc ns p2, where opts = "sample_options [] False True ''none''"
        and pr = "sample_print (sample_options [] False True ''none'')"] e2
    unfolding sample_chain_eval sample_nested_eval by simp
qed

lemma bnd_ret_result:
  "bnd m (\<lambda>d. ret (g d)) s = (Inr r, s') \<Longrightarrow> \<exists>d. r = g d"
  by (auto simp: bnd_def ret_def split: prod.splits sum.splits)

lemma bnd_Inr_cases:
  "bnd m f s = (Inr r, s') \<Longrightarrow> \<exists>x s1. m s = (Inr x, s1) \<and> f x s1 = (Inr r, s')"
  by (auto simp: bnd_def split: prod.splits sum.splits)

lemma results_Let: "(\<And>x. x = a \<Longrightarrow> results (f x) R) \<Longrightarrow> results (HOL.Let a f) R"
  by (simp add: Let_def)

lemma results_if:
  "(c \<Longrightarrow> results A R) \<Longrightarrow> (\<not> c \<Longrightarrow> results B R) \<Longrightarrow> results (if c then A else B) R"
  by simp

lemma results_bnd_ret: "(\<And>d. R (g d)) \<Longrightarrow> results (bnd m (\<lambda>d. ret (g d))) R"
  by (auto simp: results_def bnd_def ret_def split: prod.splits sum.splits)

lemma resultsD: "results m R \<Longrightarrow> m s = (Inr r, s') \<Longrightarrow> R r"
  by (auto simp: results_def)

lemma handleTextChild_results:
  "results (handleTextChild X opts pr node up idx st)
     (\<lambda>st'. \<exists>c. childNodes st' = (childNodes st)[idx := c])"
  unfolding handleTextChild_def
proof (intro results_Let results_if results_bnd_ret)
  fix d show "\<exists>c. childNodes (st\<lparr>childDocs := childDocs st @ [d],
        handleWhitespaceOfPrevTextNode := False\<rparr>) = (childNodes st)[idx := c]"
    by (rule exI [of _ "childNodes st ! idx"]) simp
next
  fix cn cn' c4 docs1 flag d
  assume "cn = childNodes st" "cn' = cn[idx := c4]"
  then show "\<exists>c. childNodes (st\<lparr>childNodes := cn', childDocs := docs1 @ [d],
        handleWhitespaceOfPrevTextNode := flag\<rparr>) = (childNodes st)[idx := c]"
    by auto
qed

lemma handleBlockChild_results:
  "results (handleBlockChild X opts pr node up idx st) (\<lambda>st'. childNodes st' = childNodes st)"
  unfolding handleBlockChild_def
  by (intro results_Let results_if results_bnd_ret) simp

lemma handleInlineChild_results:
  "results (handleInlineChild pr node up idx st) (\<lambda>st'. childNodes st' = childNodes st)"
  unfolding handleInlineChild_def
  by (intro results_Let results_if results_bnd_ret) simp

lemma results_weaken: "results m P \<Longrightarrow> (\<And>r. P r \<Longrightarrow> R r) \<Longrightarrow> results m R"
  by (auto simp: results_def)

lemma children_step_results:
  "results (children_step X opts pr node up i st)
     (\<lambda>st'. length (childNodes st') = length (childNodes st) \<and>
            (\<forall>j. \<not> is_Text (childNodes st ! j) \<longrightarrow> childNodes st' ! j = childNodes st ! j))"
  unfolding children_step_def
proof (intro results_Let results_if)
  fix cn childNode
  assume cn: "cn = childNodes st" and c: "childNode = cn ! i" and t: "is_Text childNode"
  show "results (handleTextChild X opts pr node up i st)
     (\<lambda>st'. length (childNodes st') = length (childNodes st) \<and>
            (\<forall>j. \<not> is_Text (childNodes st ! j) \<longrightarrow> childNodes st' ! j = childNodes st ! j))"
  proof (rule results_weaken [OF handleTextChild_results])
    fix r assume "\<exists>c. childNodes r = (childNodes st)[i := c]"
    then obtain x where x: "childNodes r = (childNodes st)[i := x]" by blast
    show "length (childNodes r) = length (childNodes st) \<and>
            (\<forall>j. \<not> is_Text (childNodes st ! j) \<longrightarrow> childNodes r ! j = childNodes st ! j)"
    proof (intro conjI allI impI)
      show "length (childNodes r) = length (childNodes st)" using x by simp
    next
      fix j assume "\<not> is_Text (childNodes st ! j)"
      with t c cn have "j \<noteq> i" by auto
      with x show "childNodes r ! j = childNodes st ! j" by simp
    qed
  qed
next
  show "results (handleBlockChild X opts pr node up i st)
     (\<lambda>st'. length (childNodes st') = length (childNodes st) \<and>
            (\<forall>j. \<not> is_Text (childNodes st ! j) \<longrightarrow> childNodes st' ! j = childNodes st ! j))"
    by (rule results_weaken [OF handleBlockChild_results]) simp
next
  show "results (handleInlineChild pr node up i st)
     (\<lambda>st'. length (childNodes st') = length (childNodes st) \<and>
            (\<forall>j. \<not> is_Text (childNodes st ! j) \<longrightarrow> childNodes st' ! j = childNodes st ! j))"
    by (rule results_weaken [OF handleInlineChild_results]) simp
next
  fix cn :: "node list"
  show "results (bnd (printChild pr node up cn i)
             (\<lambda>d. ret (st\<lparr>childDocs := childDocs st @ [d],
                          handleWhitespaceOfPrevTextNode := False\<rparr>)))
     (\<lambda>st'. length (childNodes st') = length (childNodes st) \<and>
            (\<forall>j. \<not> is_Text (childNodes st ! j) \<longrightarrow> childNodes st' ! j = childNodes st ! j))"
    by (rule results_bnd_ret) simp
qed

lemma children_step_nodes:
  assumes "children_step X opts pr node up i st s = (Inr st', s')"
  shows "length (childNodes st') = length (childNodes st) \<and>
         (\<forall>j. \<not> is_Text (childNodes st ! j) \<longrightarrow> childNodes st' ! j = childNodes st ! j)"
  using resultsD [OF children_step_results assms] .

lemma children_loop_nodes:
  "children_loop X opts pr node up is st s = (Inr st', s') \<Longrightarrow>
   length (childNodes st') = length (childNodes st) \<and>
   (\<forall>j. \<not> is_Text (childNodes st ! j) \<longrightarrow> childNodes st' ! j = childNodes st ! j)"
proof (induction "is" arbitrary: st s)
  case Nil
  then show ?case by (simp add: ret_def)
next
  case (Cons i "is")
  from Cons.prems obtain st1 s1 where
    a: "children_step X opts pr node up i st s = (Inr st1, s1)"
    and b: "children_loop X opts pr node up is st1 s1 = (Inr st', s')"
    by (auto dest!: bnd_Inr_cases)
  from children_step_nodes [OF a] Cons.IH [OF b] show ?case by auto
qed

text \<open>
  Claim C9. When \<^verbatim>\<open>printChildren\<close> prepares the children (the node is not inside a
  \<^verbatim>\<open>pre\<close> tag, where it prepares nothing), and the prepared list has more than one node
  and a block-like node in it (a node that is not a \<^verbatim>\<open>Text\<close> and that
  \<^verbatim>\<open>isBlockElement\<close> accepts), the document it returns is a concatenation whose last
  part is \<^verbatim>\<open>breakParent\<close>.
\<close>

theorem block_child_forces_break:
  assumes "\<not> isPreTagContent X (PNode node # up)"
    and "prepareChildren X opts pr (PNode node # up) (children node) s = (Inr prepared, s1)"
    and "1 < length prepared"
    and "\<exists>c\<in>set prepared. \<not> is_Text c \<and> isBlockElement X c opts"
    and "printChildren X opts pr node up s = (Inr (d, node'), s')"
  shows "\<exists>docs. d = DConcat (docs @ [DBreakParent])"
proof -
  from assms(3) have ne: "prepared \<noteq> []" by auto
  let ?st0 = "\<lparr>childNodes = prepared, childDocs = [], handleWhitespaceOfPrevTextNode = False\<rparr>"
  from assms(1,2,5) ne have
    "bnd (children_loop X opts pr node up [0..<length prepared] ?st0)
       (\<lambda>st. let forceBreakContent =
                    (1 < length (childNodes st) \<and>
                     list_ex (\<lambda>child. isBlockElement X child opts) (childNodes st))
              in ret (DConcat (childDocs st @ (if forceBreakContent then [DBreakParent] else [])),
                      set_children node (childNodes st))) s1 = (Inr (d, node'), s')"
    by (simp add: printChildren_def bnd_apply)
  then obtain st s2 where
    l: "children_loop X opts pr node up [0..<length prepared] ?st0 s1 = (Inr st, s2)"
    and r: "(let forceBreakContent =
                    (1 < length (childNodes st) \<and>
                     list_ex (\<lambda>child. isBlockElement X child opts) (childNodes st))
              in ret (DConcat (childDocs st @ (if forceBreakContent then [DBreakParent] else [])),
                      set_children node (childNodes st))) s2 = (Inr (d, node'), s')"
    by (auto dest!: bnd_Inr_cases)
  from children_loop_nodes [OF l] have
    len: "length (childNodes st) = length prepared"
    and same: "\<forall>j. \<not> is_Text (prepared ! j) \<longrightarrow> childNodes st ! j = prepared ! j"
    by simp_all
  from assms(4) obtain c where c: "c \<in> set prepared" "\<not> is_Text c" "isBlockElement X c opts"
    by blast
  then obtain j where j: "j < length prepared" "prepared ! j = c"
    by (auto simp: in_set_conv_nth)
  with same c(2) have "childNodes st ! j = c" by auto
  with j len have "c \<in> set (childNodes st)" by (metis nth_mem)
  with c(3) have "list_ex (\<lambda>child. isBlockElement X child opts) (childNodes st)"
    by (auto simp: list_ex_iff)
  with len assms(3) r have "d = DConcat (childDocs st @ [DBreakParent])"
    by (simp add: ret_def)
  then show ?thesis by blast
qed

lemma sample_prepare_eval:
  "prepareChildren sample_helpers (sample_options [] False True ''none'')
     (sample_print (sample_options [] False True ''none''))
     [PNode sample_parent] (children sample_parent) initial_state =
   (Inr [sample_div, Node (Text ''hello'' ''hello'') 11 16], initial_state)"
  by (simp add: eval_defs sample_parent_def sample_div_def sample_options_def root_of_def)

lemma sample_printChildren_eval:
  "printChildren sample_helpers (sample_options [] False True ''none'')
     (sample_print (sample_options [] False True ''none'')) sample_parent [] initial_state =
   (Inr (DConcat ([DGroup (DConcat [DText ''<'', DText ''div'', DText ''>'', DText ''</'', DText ''div'', DText ''>'']),
                   DSoftline, DFill [DText ''hello'']] @ [DBreakParent]),
         sample_parent), initial_state)"
  by (simp add: sample_print_def eval_nat_numeral eval_defs sample_parent_def sample_div_def
      sample_options_def root_of_def)

theorem block_child_forces_break_witness:
  "printChildren sample_helpers (sample_options [] False True ''none'')
     (sample_print (sample_options [] False True ''none'')) sample_parent [] initial_state =
   (Inr (DConcat ([DGroup (DConcat [DText ''<'', DText ''div'', DText ''>'', DText ''</'', DText ''div'', DText ''>'']),
                   DSoftline, DFill [DText ''hello'']] @ [DBreakParent]),
         sample_parent), initial_state) \<and>
   (\<exists>docs. DConcat ([DGroup (DConcat [DText ''<'', DText ''div'', DText ''>'', DText ''</'', DText ''div'', DText ''>'']),
                   DSoftline, DFill [DText ''hello'']] @ [DBreakParent]) = DConcat (docs @ [DBreakParent]))"
proof -
  have pre: "\<not> isPreTagContent sample_helpers [PNode sample_parent]"
    by (simp add: element_named_def sample_parent_def)
  have len: "1 < length [sample_div, Node (Text ''hello'' ''hello'') 11 16]" by simp
  have blk: "\<exists>c\<in>set [sample_div, Node (Text ''hello'' ''hello'') 11 16].
      \<not> is_Text c \<and> isBlockElement sample_helpers c (sample_options [] False True ''none'')"
    by (simp add: sample_div_def is_Text_def element_named_def)
  from block_child_forces_break [OF pre sample_prepare_eval len blk sample_printChildren_eval]
    sample_printChildren_eval
  show ?thesis by blast
qed

























lemmas top_defs =
  printTopLevelParts_def put_part_def call_section_def getChildren_def mark_script_def
  mark_style_def root_of_def doc_truthy_def flatten_def part_named_def print_verbatim_def
  js_slice_def enumerate_eq_zip sample_options_def

lemma sample_parse_order:
  "parseSortOrder sample_helpers ''options-scripts-markup-styles'' =
     [POptions, PScripts, PMarkup, PStyles]"
  "parseSortOrder sample_helpers ''styles-scripts-markup'' = [PStyles, PScripts, PMarkup]"
  by (simp_all add: part_named_def)







lemma sample_host_section:
  "sample_host opts (PNode (Node (Script as) a b) # up) =
     ret (DText (js_slice (originalText opts) a b))"
  "sample_host opts (PNode (Node (Style as) a b) # up) =
     ret (DText (js_slice (originalText opts) a b))"
  "sample_host opts (PNode (Node (Fragment cs) a b) # up) =
     sample_print opts (PNode (Node (Fragment cs) a b) # up)"
  by (simp_all add: sample_host_def)

text \<open>
  Claim C8, at an input where the code departs from it. The source holds an instance
  script, the markup \<^verbatim>\<open>m\<close> and a style, in that order, and the sort order is styles,
  scripts, markup. Without \<^verbatim>\<open>insertPragma\<close> the three sections are returned in the
  sorted order with a hard line between adjacent sections. With \<^verbatim>\<open>insertPragma\<close> and no
  pragma in the source, \<^verbatim>\<open>print\<close> returns the pragma comment, a hard line, and the three
  sections in the sorted order with nothing between them.
\<close>

theorem inserted_pragma_drops_section_separators:
  "print sample_helpers (sample_reorder False) (sample_host (sample_reorder False))
     [PRoot sample_sections_ast] initial_state =
   (Inr (DGroup (DConcat
      [DConcat [DText ''<style>c</style>'', DHardline, DText ''<script>s</script>'', DHardline,
                DGroup (DConcat [DConcat [DFill [DText ''m'']], DHardline])]])),
    initial_state) \<and>
   raw_text (DGroup (DConcat
      [DConcat [DText ''<style>c</style>'', DHardline, DText ''<script>s</script>'', DHardline,
                DGroup (DConcat [DConcat [DFill [DText ''m'']], DHardline])]])) =
     ''<style>c</style>'' @ [nl] @ ''<script>s</script>'' @ [nl] @ ''m'' @ [nl] \<and>
   print sample_helpers (sample_reorder True) (sample_host (sample_reorder True))
     [PRoot sample_sections_ast] initial_state =
   (Inr (DConcat
      [DText ''<!-- @format -->'', DHardline,
       DGroup (DConcat [DText ''<style>c</style>'', DText ''<script>s</script>'',
                        DGroup (DConcat [DConcat [DFill [DText ''m'']], DHardline])])]),
    initial_state) \<and>
   raw_text (DConcat
      [DText ''<!-- @format -->'', DHardline,
       DGroup (DConcat [DText ''<style>c</style>'', DText ''<script>s</script>'',
                        DGroup (DConcat [DConcat [DFill [DText ''m'']], DHardline])])]) =
     ''<!-- @format -->'' @ [nl] @ ''<style>c</style><script>s</script>m'' @ [nl]"
  by (simp add: sample_reorder_def sample_sections_ast_def sample_sections_source_def
      sample_host_section sample_print_def eval_nat_numeral eval_defs top_defs
      sample_parse_order hasPragma_def starts_with_def nonword_next_def)

end
